(* ===== verification/Prelude.thy ===== *)
theory Prelude
  imports Complex_Main "HOL-Library.Sublist"
begin

text \<open>
  Shared vocabulary of the development: the parts of the JavaScript runtime that the
  sources rely on (truthiness of optional values, \<open>||\<close>, \<open>String.prototype.toLowerCase\<close>
  and \<open>String.prototype.includes\<close>), the exceptions a handler can raise, and the
  sequencing of fallible steps.  Strings are byte lists (\<open>char list\<close>); the lowering
  follows JavaScript on ASCII letters and leaves every other byte alone, which is exact for
  the Arabic names of the data set (Arabic script has no case).
\<close>

named_theorems model_simps \<open>evaluation rules for the model's definitions\<close>

declare char_of_eq_iff [model_simps]

subsection \<open>Exceptions and sequencing\<close>

text \<open>
  A JavaScript exception escaping a handler: a \<open>TypeError\<close> (reading a property of
  \<open>undefined\<close>) or an \<open>Error\<close> thrown by a library, each with its message.
\<close>

datatype js_error = TypeError string | Error string

type_synonym 'a result = "js_error + 'a"

definition bind_r :: "'a result \<Rightarrow> ('a \<Rightarrow> 'b result) \<Rightarrow> 'b result" where
  "bind_r m f = (case m of Inl e \<Rightarrow> Inl e | Inr x \<Rightarrow> f x)"

subsection \<open>Truthiness of optional properties\<close>

text \<open>
  A GeoJSON property that may be missing is an option; JavaScript's \<open>if (x)\<close> and
  \<open>x && \<dots>\<close> test it for truthiness: \<open>undefined\<close>, \<open>''''\<close> and \<open>0\<close> are false.
\<close>

fun truthy_str :: "string option \<Rightarrow> bool" where
  "truthy_str None = False"
| "truthy_str (Some s) = (s \<noteq> [])"

fun truthy_num :: "'a::zero option \<Rightarrow> bool" where
  "truthy_num None = False"
| "truthy_num (Some n) = (n \<noteq> 0)"

text \<open>\<open>a || d\<close> on an optional string with a string default.\<close>

fun or_str :: "string option \<Rightarrow> string \<Rightarrow> string" where
  "or_str None d = d"
| "or_str (Some s) d = (if s \<noteq> [] then s else d)"

text \<open>A chain \<open>a1 || a2 || \<dots> || d\<close>: the first truthy value, else the default.\<close>

fun or_chain :: "string option list \<Rightarrow> string \<Rightarrow> string" where
  "or_chain [] d = d"
| "or_chain (a # as) d = (if truthy_str a then or_str a d else or_chain as d)"

subsection \<open>Lower-casing and substring search\<close>

definition lower_char :: "char \<Rightarrow> char" where
  "lower_char c =
     (let n = of_char c :: nat in if 65 \<le> n \<and> n \<le> 90 then char_of (n + 32) else c)"

definition to_lower :: "string \<Rightarrow> string" where
  "to_lower s = map lower_char s"

declare lower_char_def [model_simps] to_lower_def [model_simps]

text \<open>\<open>hay.startsWith(needle)\<close>, the test made at each position by \<open>includes\<close>.\<close>

fun starts_with :: "string \<Rightarrow> string \<Rightarrow> bool" where
  "starts_with hay [] = True"
| "starts_with [] (c # cs) = False"
| "starts_with (h # hs) (c # cs) = (h = c \<and> starts_with hs cs)"

text \<open>\<open>hay.includes(needle)\<close>: try every position from the left.\<close>

fun str_includes :: "string \<Rightarrow> string \<Rightarrow> bool" where
  "str_includes [] needle = (needle = [])"
| "str_includes (h # hs) needle = (starts_with (h # hs) needle \<or> str_includes hs needle)"

subsection \<open>Lemmas on the runtime primitives\<close>

lemma bind_r_simps [simp]:
  "bind_r (Inl e) f = Inl e"
  "bind_r (Inr x) f = f x"
  by (simp_all add: bind_r_def)

lemma bind_r_Inr_iff:
  "bind_r m f = Inr y \<longleftrightarrow> (\<exists>x. m = Inr x \<and> f x = Inr y)"
  by (cases m) simp_all

lemma bind_r_Inl_iff:
  "bind_r m f = Inl e \<longleftrightarrow> m = Inl e \<or> (\<exists>x. m = Inr x \<and> f x = Inl e)"
  by (cases m) simp_all

lemma or_str_truthy: "truthy_str a \<Longrightarrow> or_str a d = the a"
  by (cases a) simp_all

lemma or_str_falsy: "\<not> truthy_str a \<Longrightarrow> or_str a d = d"
  by (cases a) simp_all

lemma lower_char_idem [simp]: "lower_char (lower_char c) = lower_char c"
proof (cases "65 \<le> (of_char c :: nat) \<and> (of_char c :: nat) \<le> 90")
  case True
  then have "(of_char c + 32 :: nat) mod 256 = of_char c + 32"
    by simp
  then have "of_char (char_of (of_char c + 32 :: nat) :: char) = (of_char c + 32 :: nat)"
    by (simp only: of_char_of)
  with True show ?thesis by (simp add: lower_char_def Let_def)
next
  case False
  then have "lower_char c = c" unfolding lower_char_def Let_def by argo
  then show ?thesis by simp
qed

lemma to_lower_idem [simp]: "to_lower (to_lower s) = to_lower s"
  by (simp add: to_lower_def)

lemma length_to_lower [simp]: "length (to_lower s) = length s"
  by (simp add: to_lower_def)

lemma to_lower_Nil_iff [simp]: "to_lower s = [] \<longleftrightarrow> s = []"
  by (simp add: to_lower_def)

lemma starts_with_iff: "starts_with hay needle \<longleftrightarrow> prefix needle hay"
  by (induction hay needle rule: starts_with.induct) auto

lemma str_includes_sublist: "str_includes hay needle \<longleftrightarrow> sublist needle hay"
proof (induction hay)
  case Nil
  then show ?case by simp
next
  case (Cons h hs)
  then show ?case
    by (simp add: starts_with_iff sublist_Cons_right)
qed

end
