(* ===== verification/ViewState.thy ===== *)
theory ViewState
  imports Prelude
begin

text \<open>
  The view state owned by \<open>App\<close> (\<open>src/web-app/src/app.jsx\<close>): the five filter
  fields that \<open>App\<close> passes to \<open>MapView\<close> as props (\<open>mv_props\<close>), extended by the
  statistics, the loading flag and the load error that \<open>MapView\<close> sets through the
  setters it receives.  \<open>initial_app\<close> is the initial \<open>useState\<close> values (lines
  9--16), \<open>reset_view\<close> is \<open>resetView\<close> (lines 18--24): five setters that Preact
  batches into one render.
\<close>

record stats =
  total :: nat
  visible :: nat
  boundaries :: nat

record mv_props =
  placeFilter :: string
  showBoundaries :: bool
  adminLevel :: string
  searchTerm :: string
  mapStyle :: string

record app_state = mv_props +
  stats :: stats
  loading :: bool
  error :: "string option"

definition initial_app :: app_state where
  "initial_app =
     \<lparr>placeFilter = ''none'', showBoundaries = False, adminLevel = ''admin1'',
      searchTerm = [], mapStyle = ''openstreetmap'',
      stats = \<lparr>total = 0, visible = 0, boundaries = 0\<rparr>, loading = True, error = None\<rparr>"

definition reset_view :: "app_state \<Rightarrow> app_state" where
  "reset_view s =
     s\<lparr>placeFilter := ''none'', searchTerm := [], showBoundaries := False,
       adminLevel := ''admin1'', mapStyle := ''openstreetmap''\<rparr>"

text \<open>The functional updates \<open>setStats(prev => ({...prev, f: n}))\<close>.\<close>

definition set_visible :: "nat \<Rightarrow> app_state \<Rightarrow> app_state" where
  "set_visible n s = s\<lparr>stats := (stats s)\<lparr>visible := n\<rparr>\<rparr>"

definition set_boundaries :: "nat \<Rightarrow> app_state \<Rightarrow> app_state" where
  "set_boundaries n s = s\<lparr>stats := (stats s)\<lparr>boundaries := n\<rparr>\<rparr>"

lemma set_visible_sel [simp]:
  "placeFilter (set_visible n s) = placeFilter s"
  "showBoundaries (set_visible n s) = showBoundaries s"
  "adminLevel (set_visible n s) = adminLevel s"
  "searchTerm (set_visible n s) = searchTerm s"
  "mapStyle (set_visible n s) = mapStyle s"
  "loading (set_visible n s) = loading s"
  "error (set_visible n s) = error s"
  "visible (stats (set_visible n s)) = n"
  "total (stats (set_visible n s)) = total (stats s)"
  "boundaries (stats (set_visible n s)) = boundaries (stats s)"
  by (simp_all add: set_visible_def)

lemma set_boundaries_sel [simp]:
  "placeFilter (set_boundaries n s) = placeFilter s"
  "showBoundaries (set_boundaries n s) = showBoundaries s"
  "adminLevel (set_boundaries n s) = adminLevel s"
  "searchTerm (set_boundaries n s) = searchTerm s"
  "mapStyle (set_boundaries n s) = mapStyle s"
  "loading (set_boundaries n s) = loading s"
  "error (set_boundaries n s) = error s"
  "visible (stats (set_boundaries n s)) = visible (stats s)"
  "total (stats (set_boundaries n s)) = total (stats s)"
  "boundaries (stats (set_boundaries n s)) = n"
  by (simp_all add: set_boundaries_def)

lemma reset_view_sel [simp]:
  "placeFilter (reset_view s) = ''none''"
  "searchTerm (reset_view s) = []"
  "showBoundaries (reset_view s) = False"
  "adminLevel (reset_view s) = ''admin1''"
  "mapStyle (reset_view s) = ''openstreetmap''"
  "stats (reset_view s) = stats s"
  "loading (reset_view s) = loading s"
  "error (reset_view s) = error s"
  by (simp_all add: reset_view_def)

end
