(* ===== verification/GeoJson.thy ===== *)
theory GeoJson
  imports Prelude
begin

text \<open>
  The data the viewer loads (\<open>public/data/geojson/*.geojson\<close>, read in
  \<open>src/web-app/src/components/MapView.jsx\<close>): a feature is a geometry with the
  properties the components read (\<open>name\<close>, \<open>place\<close>, \<open>population\<close>,
  \<open>adm0_name\<close>, \<open>adm1_name\<close>, \<open>adm2_name\<close>, \<open>area_sqkm\<close>), each of which may be
  missing.  A parsed response body is a \<open>FeatureCollection\<close>, a falsy JSON value
  (\<open>null\<close>, \<open>false\<close>, \<open>0\<close>, \<open>""\<close>) or some other truthy value without a
  \<open>features\<close> array; the code behaves differently on the three.
\<close>

record props =
  name :: "string option"
  place :: "string option"
  population :: "int option"
  adm0_name :: "string option"
  adm1_name :: "string option"
  adm2_name :: "string option"
  area_sqkm :: "rat option"

type_synonym position = "rat \<times> rat"

datatype geometry =
    Point position
  | LineString "position list"
  | Polygon "position list list"
  | MultiPolygon "position list list list"

record feature =
  geometry :: geometry
  properties :: props

datatype json =
    JCollection "feature list"
  | JFalsy
  | JOther

text \<open>Truthiness of a JSON value, and of a reference that may still be \<open>null\<close>.\<close>

fun json_truthy :: "json \<Rightarrow> bool" where
  "json_truthy JFalsy = False"
| "json_truthy _ = True"

fun ref_truthy :: "json option \<Rightarrow> bool" where
  "ref_truthy None = False"
| "ref_truthy (Some j) = json_truthy j"

text \<open>\<open>a || b\<close> on two references.\<close>

definition ref_or :: "json option \<Rightarrow> json option \<Rightarrow> json option" where
  "ref_or a b = (if ref_truthy a then a else b)"

text \<open>\<open>a || d\<close> with a JSON default that is always there.\<close>

definition json_or :: "json option \<Rightarrow> json \<Rightarrow> json" where
  "json_or a d = (case a of Some j \<Rightarrow> if json_truthy j then j else d | None \<Rightarrow> d)"

text \<open>\<open>c.features ? c.features.length : 0\<close>\<close>

fun features_length :: "json \<Rightarrow> nat" where
  "features_length (JCollection fs) = length fs"
| "features_length _ = 0"

lemma ref_or_truthy [simp]: "ref_truthy a \<Longrightarrow> ref_or a b = a"
  and ref_or_falsy [simp]: "\<not> ref_truthy a \<Longrightarrow> ref_or a b = b"
  by (simp_all add: ref_or_def)

lemma json_or_simps [simp]:
  "json_or None d = d"
  "json_or (Some j) d = (if json_truthy j then j else d)"
  by (simp_all add: json_or_def)

lemma json_or_truthy: "json_truthy d \<Longrightarrow> json_truthy (json_or a d)"
  by (cases a) simp_all

end
