(* ===== verification/PlaceFilter.thy ===== *)
theory PlaceFilter
  imports GeoJson
begin

text \<open>
  The filter engine: the two \<open>Array.prototype.filter\<close> passes of \<open>displayPlaces\<close>
  (\<open>MapView.jsx\<close>, lines 152--164).  The first keeps the features whose \<open>place\<close>
  property is exactly the selected category unless \<open>all\<close> is selected; the second, run
  only for a non-empty search term, keeps the features with a non-empty \<open>name\<close> that
  contains the term, both lower-cased.  The \<open>none\<close> category is handled by the
  caller (\<open>Render.display_places\<close>) before these passes are reached.
\<close>

definition place_matches :: "string \<Rightarrow> feature \<Rightarrow> bool" where
  "place_matches placeFilter f = (place (properties f) = Some placeFilter)"

definition name_matches :: "string \<Rightarrow> feature \<Rightarrow> bool" where
  "name_matches searchTerm f =
     (case name (properties f) of
        None \<Rightarrow> False
      | Some n \<Rightarrow> n \<noteq> [] \<and> str_includes (to_lower n) (to_lower searchTerm))"

definition filter_features :: "string \<Rightarrow> string \<Rightarrow> feature list \<Rightarrow> feature list" where
  "filter_features placeFilter searchTerm features =
     (let filtered = (if placeFilter \<noteq> ''all''
                      then filter (place_matches placeFilter) features else features)
      in if searchTerm \<noteq> [] then filter (name_matches searchTerm) filtered else filtered)"

text \<open>The reference specification: one stable pass with the conjunction of both tests.\<close>

definition keep :: "string \<Rightarrow> string \<Rightarrow> feature \<Rightarrow> bool" where
  "keep placeFilter searchTerm f =
     ((placeFilter = ''all'' \<or> place_matches placeFilter f) \<and>
      (searchTerm = [] \<or> name_matches searchTerm f))"

lemmas filter_defs = filter_features_def keep_def place_matches_def name_matches_def

lemma filter_features_keep:
  "filter_features placeFilter searchTerm fs = filter (keep placeFilter searchTerm) fs"
  by (simp add: filter_features_def keep_def [abs_def] Let_def)

lemma name_matches_lower:
  "to_lower s = to_lower s' \<Longrightarrow> name_matches s f = name_matches s' f"
  by (simp add: name_matches_def split: option.split)

lemma keep_lower:
  "to_lower s = to_lower s' \<Longrightarrow> keep pf s f = keep pf s' f"
proof -
  assume eq: "to_lower s = to_lower s'"
  then have "s = [] \<longleftrightarrow> s' = []"
    by (metis to_lower_Nil_iff)
  with eq show ?thesis
    by (simp add: keep_def name_matches_lower [OF eq])
qed

lemma keep_place: "pf \<noteq> ''all'' \<Longrightarrow> keep pf st f \<Longrightarrow> place (properties f) = Some pf"
  by (simp add: keep_def place_matches_def)

subsection \<open>Properties of the filter\<close>

text \<open>
  C2: the filter keeps exactly the features of the collection whose category is the
  selected one (any category for \<open>all\<close>) and, for a non-empty search term, whose
  non-empty name contains the term case-insensitively; it keeps them in the order of the
  collection.
\<close>

theorem filter_features_spec:
  "filter_features placeFilter searchTerm fs =
     [f \<leftarrow> fs. (placeFilter = ''all'' \<or> place (properties f) = Some placeFilter) \<and>
             (searchTerm = [] \<or>
              (\<exists>n. name (properties f) = Some n \<and> n \<noteq> [] \<and>
                   sublist (to_lower searchTerm) (to_lower n)))]"
proof -
  have pt: "keep placeFilter searchTerm f \<longleftrightarrow>
          (placeFilter = ''all'' \<or> place (properties f) = Some placeFilter) \<and>
          (searchTerm = [] \<or>
           (\<exists>n. name (properties f) = Some n \<and> n \<noteq> [] \<and>
                sublist (to_lower searchTerm) (to_lower n)))" for f
    by (auto simp: keep_def place_matches_def name_matches_def str_includes_sublist
             split: option.split)
  show ?thesis
    unfolding filter_features_keep by (rule filter_cong) (simp_all only: pt)
qed

text \<open>
  C14: the search is case-insensitive: two search terms that lower-case to the same string
  select the same features.
\<close>

theorem filter_features_case_insensitive:
  "to_lower s = to_lower s' \<Longrightarrow> filter_features pf s fs = filter_features pf s' fs"
proof -
  assume eq: "to_lower s = to_lower s'"
  have "keep pf s = keep pf s'"
    by (rule ext) (rule keep_lower [OF eq])
  then show ?thesis
    by (simp only: filter_features_keep)
qed

text \<open>C16: with category \<open>all\<close> and an empty search term the whole collection is kept.\<close>

theorem filter_features_all_empty: "filter_features ''all'' [] fs = fs"
  by (simp add: filter_features_def)

text \<open>
  C15: with a category other than \<open>all\<close>, every feature kept has exactly that category
  (case-sensitive, no normalisation).
\<close>

theorem filter_features_place:
  "pf \<noteq> ''all'' \<Longrightarrow> f \<in> set (filter_features pf st fs) \<Longrightarrow> place (properties f) = Some pf"
  by (auto simp: filter_features_keep dest: keep_place)

end
