(* ===== verification/Style.thy ===== *)
theory Style
  imports GeoJson
begin

text \<open>
  The style resolver: the Leaflet path options that \<open>MapView.jsx\<close> gives each drawn
  geometry.  \<open>place_style\<close> is the \<open>style\<close> callback of \<open>displayPlaces\<close> (lines
  168--199), keyed by the feature's \<open>place\<close> property with \<open>'unknown'\<close> for a
  missing one; \<open>admin_style\<close> is \<open>getStyle\<close> of \<open>displayBoundaries\<close> (lines
  238--285), keyed by the admin level, whose \<open>default\<close> branch serves
  \<open>populated_places\<close> and every unrecognised level.  A \<open>dashArray\<close> that is
  \<open>null\<close> or absent is \<open>None\<close>; numbers are rationals (\<open>2.5\<close> is \<open>5/2\<close>).
\<close>

record path_style =
  color :: string
  weight :: rat
  opacity :: rat
  fillOpacity :: rat
  fill :: bool
  dashArray :: "string option"
  lineCap :: string
  lineJoin :: string

definition outline :: "string \<Rightarrow> rat \<Rightarrow> rat \<Rightarrow> string option \<Rightarrow> path_style" where
  "outline c w op dash =
     \<lparr>color = c, weight = w, opacity = op, fillOpacity = 0, fill = False,
      dashArray = dash, lineCap = ''round'', lineJoin = ''round''\<rparr>"

definition place_color_weight :: "string \<Rightarrow> string \<times> rat" where
  "place_color_weight placeType =
     (if placeType = ''city'' then (''#e74c3c'', 3)
      else if placeType = ''town'' then (''#f39c12'', 5 / 2)
      else if placeType = ''village'' then (''#27ae60'', 2)
      else (''#95a5a6'', 3 / 2))"

definition place_style :: "feature \<Rightarrow> path_style" where
  "place_style feature =
     (let placeType = or_str (place (properties feature)) ''unknown'';
          (c, w) = place_color_weight placeType
      in outline c w (4 / 5) None)"

definition admin_style :: "string \<Rightarrow> path_style" where
  "admin_style adminLevel =
     (if adminLevel = ''admin0'' then outline ''#e74c3c'' 4 (9 / 10) None
      else if adminLevel = ''admin1'' then outline ''#3498db'' 3 (4 / 5) None
      else if adminLevel = ''admin2'' then outline ''#f39c12'' 2 (7 / 10) (Some ''5, 5'')
      else outline ''#27ae60'' 2 (7 / 10) (Some ''3, 3''))"

lemma outline_sel [simp]:
  "color (outline c w op dash) = c"
  "weight (outline c w op dash) = w"
  "fill (outline c w op dash) = False"
  "fillOpacity (outline c w op dash) = 0"
  "dashArray (outline c w op dash) = dash"
  by (simp_all add: outline_def)

lemma place_style_no_fill [simp]:
  "fill (place_style f) = False" "fillOpacity (place_style f) = 0"
  by (simp_all add: place_style_def Let_def split: prod.split)

lemma admin_style_no_fill [simp]:
  "fill (admin_style l) = False" "fillOpacity (admin_style l) = 0"
  by (simp_all add: admin_style_def)

lemma place_style_sel:
  "color (place_style f) = fst (place_color_weight (or_str (place (properties f)) ''unknown''))"
  "weight (place_style f) = snd (place_color_weight (or_str (place (properties f)) ''unknown''))"
  "dashArray (place_style f) = None"
  by (simp_all add: place_style_def Let_def split: prod.split)

end
