(* ===== verification/Format.thy ===== *)
theory Format
  imports Prelude
begin

text \<open>
  Number formatting used by the popups: \<open>Number.prototype.toLocaleString()\<close> on an
  integer (\<open>props.population\<close>, \<open>MapView.jsx\<close> line 218, and the rounded area, line
  297) and \<open>Math.round\<close> (line 297).  The formatter is modelled for the \<open>en-US\<close>
  locale: decimal digits grouped by threes from the right with a comma, a leading minus
  sign for negative numbers.  \<open>Math.round x\<close> is \<open>floor (x + 1/2)\<close>, which rounds
  halves towards plus infinity as JavaScript does (\<open>Math.round(-2.5) = -2\<close>).
  Both are library functions; the development uses them only inside the popups.
\<close>

definition digit_char :: "nat \<Rightarrow> char" where
  "digit_char d = char_of (48 + d)"

fun nat_digits :: "nat \<Rightarrow> string" where
  "nat_digits n =
     (if n < 10 then [digit_char n] else nat_digits (n div 10) @ [digit_char (n mod 10)])"

declare nat_digits.simps [simp del]

text \<open>Insert a separator after every third digit of the reversed digit string.\<close>

fun sep3 :: "string \<Rightarrow> string" where
  "sep3 (a # b # c # d # rest) = a # b # c # CHR '','' # sep3 (d # rest)"
| "sep3 ds = ds"

definition group_thousands :: "string \<Rightarrow> string" where
  "group_thousands ds = rev (sep3 (rev ds))"

definition to_locale_string :: "int \<Rightarrow> string" where
  "to_locale_string i =
     (if i < 0 then ''-'' else []) @ group_thousands (nat_digits (nat \<bar>i\<bar>))"

definition js_round :: "rat \<Rightarrow> int" where
  "js_round x = \<lfloor>x + 1 / 2\<rfloor>"

end
