(* ===== verification/Popup.thy ===== *)
theory Popup
  imports GeoJson Format
begin

text \<open>
  The popups that \<open>MapView.jsx\<close> binds to drawn features, as their content rather than
  their HTML markup: a bold title and a list of labelled lines.  \<open>place_popup\<close> is the
  \<open>onEachFeature\<close> callback of \<open>displayPlaces\<close> (lines 200--222): a feature without a
  truthy \<open>name\<close> gets no popup; otherwise the type line shows \<open>place || 'Unknown'\<close>
  and the Arabic label of the \<open>placeTypeArabic\<close> table (\<open>ArUnknown\<close> is
  its fallback text), and a truthy \<open>population\<close> adds a formatted population line.
  \<open>boundary_popup\<close> is the \<open>onEachFeature\<close> callback of \<open>displayBoundaries\<close>
  (lines 289--305): the title is the first truthy of \<open>name\<close>, \<open>adm0_name\<close>,
  \<open>adm1_name\<close>, \<open>adm2_name\<close>, else \<open>'Unknown'\<close>; at level \<open>admin1\<close> a truthy
  \<open>adm1_name\<close> adds the state line and a truthy area the rounded, formatted area; at
  level \<open>admin2\<close> a truthy \<open>adm2_name\<close> adds the locality line and the state line
  when \<open>adm1_name\<close> is truthy.
\<close>

datatype ar_label = ArCity | ArTown | ArVillage | ArUnknown

datatype popup_line =
    TypeLine string ar_label
  | PopulationLine string
  | StateLine string
  | AreaLine string
  | LocalityLine string

record popup =
  title :: string
  lines :: "popup_line list"

fun place_type_arabic :: "string option \<Rightarrow> ar_label" where
  "place_type_arabic (Some p) =
     (if p = ''city'' then ArCity else if p = ''town'' then ArTown
      else if p = ''village'' then ArVillage else ArUnknown)"
| "place_type_arabic None = ArUnknown"

definition place_popup :: "feature \<Rightarrow> popup option" where
  "place_popup feature =
     (let props = properties feature in
      if truthy_str (name props) then
        Some \<lparr>title = or_str (name props) [],
              lines = TypeLine (or_str (place props) ''Unknown'') (place_type_arabic (place props))
                      # (case population props of
                           Some p \<Rightarrow> if p \<noteq> 0 then [PopulationLine (to_locale_string p)] else []
                         | None \<Rightarrow> [])\<rparr>
      else None)"

definition boundary_name :: "props \<Rightarrow> string" where
  "boundary_name props =
     or_chain [name props, adm0_name props, adm1_name props, adm2_name props] ''Unknown''"

definition area_lines :: "props \<Rightarrow> popup_line list" where
  "area_lines props =
     (case area_sqkm props of
        Some a \<Rightarrow> if a \<noteq> 0 then [AreaLine (to_locale_string (js_round a))] else []
      | None \<Rightarrow> [])"

definition boundary_popup :: "string \<Rightarrow> feature \<Rightarrow> popup" where
  "boundary_popup adminLevel feature =
     (let props = properties feature in
      \<lparr>title = boundary_name props,
       lines = (if truthy_str (adm1_name props) \<and> adminLevel = ''admin1''
                then StateLine (or_str (adm1_name props) []) # area_lines props
                else if truthy_str (adm2_name props) \<and> adminLevel = ''admin2''
                then LocalityLine (or_str (adm2_name props) [])
                     # (if truthy_str (adm1_name props)
                        then [StateLine (or_str (adm1_name props) [])] else [])
                else [])\<rparr>)"

lemma or_chain_find:
  "or_chain as d = (case find truthy_str as of Some (Some n) \<Rightarrow> n | _ \<Rightarrow> d)"
proof (induction as)
  case Nil
  then show ?case by simp
next
  case (Cons a as)
  then show ?case
    by (cases a) (simp_all add: or_str_truthy)
qed

lemma or_chain_ne: "d \<noteq> [] \<Longrightarrow> or_chain as d \<noteq> []"
proof (induction as)
  case Nil
  then show ?case by simp
next
  case (Cons a as)
  then show ?case
    by (cases a) simp_all
qed

subsection \<open>Properties\<close>

text \<open>
  C17: the title of a boundary popup is the first of \<open>name\<close>, \<open>adm0_name\<close>,
  \<open>adm1_name\<close>, \<open>adm2_name\<close> that is present and non-empty, and \<open>Unknown\<close> when
  there is none; in particular it is never empty.
\<close>

theorem boundary_popup_title:
  "title (boundary_popup lvl f) =
     (case find truthy_str [name (properties f), adm0_name (properties f),
                            adm1_name (properties f), adm2_name (properties f)] of
        Some (Some n) \<Rightarrow> n
      | _ \<Rightarrow> ''Unknown'') \<and>
   title (boundary_popup lvl f) \<noteq> []"
proof -
  let ?p = "properties f"
  have t: "title (boundary_popup lvl f) = boundary_name ?p"
    by (simp add: boundary_popup_def Let_def)
  have "boundary_name ?p =
          (case find truthy_str [name ?p, adm0_name ?p, adm1_name ?p, adm2_name ?p] of
             Some (Some n) \<Rightarrow> n
           | _ \<Rightarrow> ''Unknown'')"
    by (simp only: boundary_name_def or_chain_find)
  moreover have "boundary_name ?p \<noteq> []"
    unfolding boundary_name_def by (rule or_chain_ne) simp
  ultimately show ?thesis
    unfolding t by (rule conjI)
qed

text \<open>
  C23: a feature with a non-empty name gets a popup titled with that name, whose first line
  is its type (\<open>Unknown\<close> when missing) with the Arabic label, and which has a
  population line exactly when the population is present and non-zero, showing the
  formatted population.
\<close>

theorem place_popup_spec:
  "truthy_str (name (properties f)) \<Longrightarrow>
   \<exists>p. place_popup f = Some p \<and> title p = the (name (properties f)) \<and>
       hd (lines p) = TypeLine (or_str (place (properties f)) ''Unknown'')
                               (place_type_arabic (place (properties f))) \<and>
       (\<forall>t. PopulationLine t \<in> set (lines p) \<longleftrightarrow>
            truthy_num (population (properties f)) \<and>
            t = to_locale_string (the (population (properties f))))"
  by (cases "population (properties f)") (auto simp: place_popup_def Let_def or_str_truthy)

end
