(* ===== verification/Render.thy ===== *)
theory Render
  imports ViewState PlaceFilter Style Popup
begin

text \<open>
  The layer renderer and basemap switcher: the refs of \<open>MapView\<close>
  (\<open>src/web-app/src/components/MapView.jsx\<close>, lines 14--21) as the record
  \<open>map_view\<close>, and its operations on the pair of the \<open>App\<close> state (which the
  \<open>setStats\<close> calls update) and the view.  A ref that is still \<open>null\<close> is \<open>None\<close>
  (\<open>mapInstance\<close> is the flag \<open>mapInstance\<close>).  The Leaflet map keeps a set of attached
  layers; a tile layer carries the stamp Leaflet gives every new layer object, so that
  \<open>removeLayer(tileLayer.current)\<close> removes that object and no other.  A layer group's
  content is the list of GeoJSON layers added to it since its last \<open>clearLayers()\<close>;
  a GeoJSON layer is the list of drawn features, each with its path style (none for a
  \<open>Point\<close>, which Leaflet draws as an unstyled marker) and its popup.
\<close>

record tile_style =
  url :: string
  attribution :: string

datatype map_layer = TileLayer nat tile_style | PlacesGroup | BoundariesGroup

record drawn =
  d_feature :: feature
  d_style :: "path_style option"
  d_popup :: "popup option"

type_synonym geojson_layer = "drawn list"

record map_view =
  mapInstance :: bool
  map_layers :: "map_layer set"
  center :: position
  zoom :: nat
  next_stamp :: nat
  placesLayer :: "geojson_layer list option"
  boundariesLayer :: "geojson_layer list option"
  tileLayer :: "(nat \<times> tile_style) option"
  placesData :: "json option"
  boundariesData :: "json option"
  adminData :: "(string \<times> json) list"

definition empty_view :: map_view where
  "empty_view =
     \<lparr>mapInstance = False, map_layers = {}, center = (0, 0), zoom = 0, next_stamp = 0,
      placesLayer = None, boundariesLayer = None, tileLayer = None,
      placesData = None, boundariesData = None, adminData = []\<rparr>"

subsection \<open>Basemap styles (lines 24--45)\<close>

definition copyright :: string where
  "copyright = [CHR 0xC2, CHR 0xA9]"

definition openstreetmap :: tile_style where
  "openstreetmap =
     \<lparr>url = ''https://{s}.tile.openstreetmap.org/{z}/{x}/{y}.png'',
      attribution = copyright @ '' OpenStreetMap contributors''\<rparr>"

definition mapStyles :: "(string \<times> tile_style) list" where
  "mapStyles =
     [(''openstreetmap'', openstreetmap),
      (''satellite'', \<lparr>url = ''https://server.arcgisonline.com/ArcGIS/rest/services/World_Imagery/MapServer/tile/{z}/{y}/{x}'',
                      attribution = copyright @ '' Esri, Maxar, Earthstar Geographics''\<rparr>),
      (''terrain'', \<lparr>url = ''https://{s}.tile.opentopomap.org/{z}/{x}/{y}.png'',
                    attribution = copyright @ '' OpenTopoMap contributors''\<rparr>),
      (''dark'', \<lparr>url = ''https://{s}.basemaps.cartocdn.com/dark_all/{z}/{x}/{y}{r}.png'',
                 attribution = copyright @ '' CartoDB, '' @ copyright @ '' OpenStreetMap contributors''\<rparr>),
      (''light'', \<lparr>url = ''https://{s}.basemaps.cartocdn.com/light_all/{z}/{x}/{y}{r}.png'',
                  attribution = copyright @ '' CartoDB, '' @ copyright @ '' OpenStreetMap contributors''\<rparr>)]"

text \<open>\<open>mapStyles[mapStyle] || mapStyles.openstreetmap\<close> (lines 54 and 342).\<close>

definition style_for :: "string \<Rightarrow> tile_style" where
  "style_for key = (case map_of mapStyles key of Some st \<Rightarrow> st | None \<Rightarrow> openstreetmap)"

subsection \<open>Boundary data lookup (lines 132--134)\<close>

definition getCurrentBoundaryData :: "(string \<times> json) list \<Rightarrow> string \<Rightarrow> json" where
  "getCurrentBoundaryData ad lvl =
     json_or (map_of ad lvl) (json_or (map_of ad ''admin1'') (JCollection []))"

subsection \<open>Drawing GeoJSON (Leaflet's \<open>L.geoJSON\<close>)\<close>

definition leaflet_geojson ::
  "(feature \<Rightarrow> path_style) \<Rightarrow> (feature \<Rightarrow> popup option) \<Rightarrow> feature list \<Rightarrow> geojson_layer" where
  "leaflet_geojson style onEachFeature features =
     map (\<lambda>f. \<lparr>d_feature = f,
               d_style = (case geometry f of Point _ \<Rightarrow> None | _ \<Rightarrow> Some (style f)),
               d_popup = onEachFeature f\<rparr>) features"

definition draw_places :: "feature list \<Rightarrow> geojson_layer" where
  "draw_places features = leaflet_geojson place_style place_popup features"

definition draw_boundaries :: "string \<Rightarrow> feature list \<Rightarrow> geojson_layer" where
  "draw_boundaries lvl features =
     leaflet_geojson (\<lambda>_. admin_style lvl) (\<lambda>f. Some (boundary_popup lvl f)) features"

subsection \<open>displayPlaces (lines 137--226)\<close>

text \<open>
  The exception raised when the data in use is a truthy JSON value without a
  \<open>features\<close> array: the first \<open>.filter\<close> reads a property of \<open>undefined\<close>, and with
  neither filter Leaflet rejects the object.
\<close>

definition places_error :: "string \<Rightarrow> string \<Rightarrow> js_error" where
  "places_error pf st =
     (if pf \<noteq> ''all'' \<or> st \<noteq> []
      then TypeError ''Cannot read properties of undefined (reading 'filter')''
      else Error ''Invalid GeoJSON object.'')"

definition displayPlaces :: "app_state \<Rightarrow> map_view \<Rightarrow> (app_state \<times> map_view) result" where
  "displayPlaces s v =
     (case placesLayer v of
        None \<Rightarrow> Inr (s, v)
      | Some _ \<Rightarrow>
          (let v = v\<lparr>placesLayer := Some []\<rparr> in
           if placeFilter s = ''none'' then Inr (set_visible 0 s, v)
           else case ref_or (boundariesData v) (placesData v) of
                  Some (JCollection features) \<Rightarrow>
                    (let filtered = filter_features (placeFilter s) (searchTerm s) features
                     in Inr (set_visible (length filtered) s,
                             v\<lparr>placesLayer := Some [draw_places filtered]\<rparr>))
                | Some JOther \<Rightarrow> Inl (places_error (placeFilter s) (searchTerm s))
                | _ \<Rightarrow> Inr (s, v)))"

subsection \<open>displayBoundaries (lines 229--307)\<close>

definition displayBoundaries :: "app_state \<Rightarrow> map_view \<Rightarrow> map_view" where
  "displayBoundaries s v =
     (case boundariesLayer v of
        None \<Rightarrow> v
      | Some _ \<Rightarrow>
          (case getCurrentBoundaryData (adminData v) (adminLevel s) of
             JCollection features \<Rightarrow>
               v\<lparr>boundariesLayer := Some [draw_boundaries (adminLevel s) features]\<rparr>
           | _ \<Rightarrow> v\<lparr>boundariesLayer := Some []\<rparr>))"

subsection \<open>Effects\<close>

text \<open>
  Leaflet's \<open>map.addLayer\<close> and \<open>map.removeLayer\<close>: adding an attached layer and
  removing a detached one change nothing.
\<close>

definition add_layer :: "map_layer \<Rightarrow> map_view \<Rightarrow> map_view" where
  "add_layer l v = v\<lparr>map_layers := insert l (map_layers v)\<rparr>"

definition remove_layer :: "map_layer \<Rightarrow> map_view \<Rightarrow> map_view" where
  "remove_layer l v = v\<lparr>map_layers := map_layers v - {l}\<rparr>"

text \<open>
  The initialisation effect (lines 48--73): create the map at Sudan's centre, attach the
  tile layer of the current style and the two layer groups, and start \<open>loadData\<close>, whose
  synchronous part is \<open>setLoading(true)\<close>; the rest of \<open>loadData\<close> runs when the
  fetches settle (\<open>Loader.loadData\<close>).
\<close>

definition init_effect :: "app_state \<Rightarrow> map_view \<Rightarrow> app_state \<times> map_view" where
  "init_effect s v =
     (if mapInstance v then (s, v)
      else
        (let style = style_for (mapStyle s); n = next_stamp v in
         (s\<lparr>loading := True\<rparr>,
          v\<lparr>mapInstance := True, center := (155007 / 10000, 325599 / 10000), zoom := 6,
            tileLayer := Some (n, style), next_stamp := Suc n,
            placesLayer := Some [], boundariesLayer := Some [],
            map_layers := insert (TileLayer n style)
                            (insert PlacesGroup (insert BoundariesGroup (map_layers v)))\<rparr>)))"

text \<open>
  The cleanup the initialisation effect returns (lines 67--72), run when \<open>MapView\<close>
  unmounts: \<open>map.remove()\<close> destroys the map with every attached layer and the ref is
  reset to \<open>null\<close>; the other refs keep their values.
\<close>

definition cleanup_effect :: "map_view \<Rightarrow> map_view" where
  "cleanup_effect v =
     (if mapInstance v then v\<lparr>mapInstance := False, map_layers := {}\<rparr> else v)"

text \<open>The boundary visibility toggle (lines 315--323).\<close>

definition toggle_effect :: "app_state \<Rightarrow> map_view \<Rightarrow> map_view" where
  "toggle_effect s v =
     (if \<not> mapInstance v \<or> boundariesLayer v = None then v
      else if showBoundaries s then add_layer BoundariesGroup v
      else remove_layer BoundariesGroup v)"

text \<open>The admin level effect (lines 326--336).\<close>

definition admin_level_effect :: "app_state \<Rightarrow> map_view \<Rightarrow> app_state \<times> map_view" where
  "admin_level_effect s v =
     (if showBoundaries s \<and> ref_truthy (map_of (adminData v) (adminLevel s)) then
        (let v' = displayBoundaries s v
         in (set_boundaries (features_length (getCurrentBoundaryData (adminData v') (adminLevel s))) s,
             v'))
      else (s, v))"

text \<open>The basemap switcher (lines 339--351).\<close>

definition map_style_effect :: "app_state \<Rightarrow> map_view \<Rightarrow> map_view" where
  "map_style_effect s v =
     (case tileLayer v of
        None \<Rightarrow> v
      | Some (i, old) \<Rightarrow>
          if \<not> mapInstance v then v
          else
            (let style = style_for (mapStyle s); n = next_stamp v;
                 v' = remove_layer (TileLayer i old) v
             in add_layer (TileLayer n style) (v'\<lparr>tileLayer := Some (n, style), next_stamp := Suc n\<rparr>)))"

text \<open>
  The effects of one commit of \<open>MapView\<close>, in the order the component declares them;
  each flag says whether that effect's dependencies changed.  Only \<open>displayPlaces\<close>
  can throw; an exception there escapes the commit and skips the effects after it.
\<close>

definition later_effects ::
  "bool \<Rightarrow> bool \<Rightarrow> bool \<Rightarrow> app_state \<Rightarrow> map_view \<Rightarrow> app_state \<times> map_view" where
  "later_effects toggle level style s v =
     (let v2 = (if toggle then toggle_effect s v else v);
          (s3, v3) = (if level then admin_level_effect s v2 else (s, v2))
      in (s3, if style then map_style_effect s3 v3 else v3))"

definition run_effects ::
  "bool \<Rightarrow> bool \<Rightarrow> bool \<Rightarrow> bool \<Rightarrow> app_state \<Rightarrow> map_view \<Rightarrow> (app_state \<times> map_view) result" where
  "run_effects places toggle level style s v =
     bind_r (if places then displayPlaces s v else Inr (s, v))
       (\<lambda>(s1, v1). Inr (later_effects toggle level style s1 v1))"

text \<open>Mounting runs the initialisation effect and then every other effect once.\<close>

definition mount :: "app_state \<Rightarrow> map_view \<Rightarrow> (app_state \<times> map_view) result" where
  "mount s v = (case init_effect s v of (s1, v1) \<Rightarrow> run_effects True True True True s1 v1)"

lemma length_leaflet_geojson [simp]: "length (leaflet_geojson st pop fs) = length fs"
  by (simp add: leaflet_geojson_def)

lemma length_draw_places [simp]: "length (draw_places fs) = length fs"
  by (simp add: draw_places_def)

subsection \<open>What each effect changes\<close>

lemma toggle_effect_sel [simp]:
  "mapInstance (toggle_effect s v) = mapInstance v"
  "placesLayer (toggle_effect s v) = placesLayer v"
  "boundariesLayer (toggle_effect s v) = boundariesLayer v"
  "tileLayer (toggle_effect s v) = tileLayer v"
  "next_stamp (toggle_effect s v) = next_stamp v"
  "center (toggle_effect s v) = center v"
  "zoom (toggle_effect s v) = zoom v"
  "placesData (toggle_effect s v) = placesData v"
  "boundariesData (toggle_effect s v) = boundariesData v"
  "adminData (toggle_effect s v) = adminData v"
  by (simp_all add: toggle_effect_def add_layer_def remove_layer_def)

lemma toggle_effect_layers:
  "mapInstance v \<Longrightarrow> boundariesLayer v \<noteq> None \<Longrightarrow>
     map_layers (toggle_effect s v) =
       (if showBoundaries s then insert BoundariesGroup (map_layers v)
        else map_layers v - {BoundariesGroup})"
  by (auto simp: toggle_effect_def add_layer_def remove_layer_def)

lemma displayBoundaries_sel [simp]:
  "mapInstance (displayBoundaries s v) = mapInstance v"
  "map_layers (displayBoundaries s v) = map_layers v"
  "placesLayer (displayBoundaries s v) = placesLayer v"
  "(boundariesLayer (displayBoundaries s v) = None) = (boundariesLayer v = None)"
  "tileLayer (displayBoundaries s v) = tileLayer v"
  "next_stamp (displayBoundaries s v) = next_stamp v"
  "center (displayBoundaries s v) = center v"
  "zoom (displayBoundaries s v) = zoom v"
  "placesData (displayBoundaries s v) = placesData v"
  "boundariesData (displayBoundaries s v) = boundariesData v"
  "adminData (displayBoundaries s v) = adminData v"
  by (simp_all add: displayBoundaries_def split: option.split json.split)

lemma admin_level_effect_cases:
  "admin_level_effect s v = (s', v') \<Longrightarrow>
     (s' = s \<and> v' = v) \<or>
     (\<exists>n. ref_truthy (map_of (adminData v) (adminLevel s)) \<and>
          s' = set_boundaries n s \<and> v' = displayBoundaries s v)"
  by (auto simp: admin_level_effect_def Let_def split: if_splits)

lemma map_style_effect_sel [simp]:
  "mapInstance (map_style_effect s v) = mapInstance v"
  "placesLayer (map_style_effect s v) = placesLayer v"
  "boundariesLayer (map_style_effect s v) = boundariesLayer v"
  "center (map_style_effect s v) = center v"
  "zoom (map_style_effect s v) = zoom v"
  "placesData (map_style_effect s v) = placesData v"
  "boundariesData (map_style_effect s v) = boundariesData v"
  "adminData (map_style_effect s v) = adminData v"
  "PlacesGroup \<in> map_layers (map_style_effect s v) \<longleftrightarrow> PlacesGroup \<in> map_layers v"
  "BoundariesGroup \<in> map_layers (map_style_effect s v) \<longleftrightarrow> BoundariesGroup \<in> map_layers v"
  by (auto simp: map_style_effect_def add_layer_def remove_layer_def Let_def split: option.split)

lemma displayPlaces_sel:
  "displayPlaces s v = Inr (s', v') \<Longrightarrow>
     mapInstance v' = mapInstance v \<and> map_layers v' = map_layers v \<and>
     boundariesLayer v' = boundariesLayer v \<and> tileLayer v' = tileLayer v \<and>
     next_stamp v' = next_stamp v \<and> center v' = center v \<and> zoom v' = zoom v \<and>
     placesData v' = placesData v \<and> boundariesData v' = boundariesData v \<and>
     adminData v' = adminData v \<and> (placesLayer v' = None \<longleftrightarrow> placesLayer v = None) \<and>
     placeFilter s' = placeFilter s \<and> showBoundaries s' = showBoundaries s \<and>
     adminLevel s' = adminLevel s \<and> searchTerm s' = searchTerm s \<and>
     mapStyle s' = mapStyle s \<and> loading s' = loading s \<and> error s' = error s \<and>
     total (stats s') = total (stats s) \<and> boundaries (stats s') = boundaries (stats s)"
  by (auto simp: displayPlaces_def Let_def split: option.splits json.splits if_splits)

lemma init_after_cleanup:
  "mapInstance v \<Longrightarrow>
     init_effect s (cleanup_effect v) =
       (s\<lparr>loading := True\<rparr>,
        v\<lparr>mapInstance := True, center := (155007 / 10000, 325599 / 10000), zoom := 6,
          tileLayer := Some (next_stamp v, style_for (mapStyle s)), next_stamp := Suc (next_stamp v),
          placesLayer := Some [], boundariesLayer := Some [],
          map_layers := {TileLayer (next_stamp v) (style_for (mapStyle s)), PlacesGroup,
                         BoundariesGroup}\<rparr>)"
  by (simp add: init_effect_def cleanup_effect_def Let_def)

subsection \<open>Properties of the renderer\<close>

lemma displayPlaces_frame:
  "displayPlaces s v = Inr (s', v') \<Longrightarrow>
     v' = v\<lparr>placesLayer := placesLayer v'\<rparr> \<and> s' = s\<lparr>stats := stats s'\<rparr>"
  by (auto simp: displayPlaces_def set_visible_def Let_def
           split: option.splits json.splits if_splits)

text \<open>
  C5: drawing the places is idempotent: running \<open>displayPlaces\<close> on the state it produced
  gives that state again (the layer group is cleared before each redraw, so nothing
  accumulates), and an exception is raised again as it was.
\<close>

theorem displayPlaces_idem:
  "bind_r (displayPlaces s v) (\<lambda>(s1, v1). displayPlaces s1 v1) = displayPlaces s v"
  by (auto simp: displayPlaces_def set_visible_def Let_def
           split: option.splits json.splits if_splits)

text \<open>
  C12: with the category \<open>none\<close> the places layer group is emptied and the visible count
  set to zero, whatever the search term and the loaded data.
\<close>

theorem displayPlaces_none:
  "placesLayer v \<noteq> None \<Longrightarrow> placeFilter s = ''none'' \<Longrightarrow>
     displayPlaces s v = Inr (set_visible 0 s, v\<lparr>placesLayer := Some []\<rparr>)"
  by (auto simp: displayPlaces_def)

text \<open>
  C22: drawing the boundaries is idempotent: the group is cleared before each redraw, so
  drawing twice for the same state leaves the same geometry as drawing once.
\<close>

theorem displayBoundaries_idem:
  "displayBoundaries s (displayBoundaries s v) = displayBoundaries s v"
  by (simp add: displayBoundaries_def split: option.splits json.splits)

end
