(* ===== verification/Loader.thy ===== *)
theory Loader
  imports Render
begin

text \<open>
  The data loader: the part of \<open>loadData\<close> (\<open>MapView.jsx\<close>, lines 76--129) that
  runs when the five fetches settle.  A fetch either rejects with a message (a network
  error) or gives a response with its \<open>ok\<close> flag and the outcome of \<open>response.json()\<close>
  (a parse error message or a JSON value).  \<open>Promise.all\<close> rejects with the reason of
  the first fetch to reject; the list is taken in settlement order for that purpose and in
  dataset order otherwise.  The five datasets are, in order: populated place points,
  populated place polygons, admin0, admin1, admin2.  Every exception inside the
  \<open>try\<close> becomes the \<open>error\<close> state; \<open>finally\<close> clears \<open>loading\<close>.  The
  statistics update \<open>setStats(prev => ...)\<close> runs its updater at once (Preact's hook
  setter does) and so can throw inside the \<open>try\<close> after the data refs were assigned.
\<close>

record response =
  ok :: bool
  body :: "string + json"

type_synonym fetch_outcome = "string + response"

fun promise_all :: "('e + 'a) list \<Rightarrow> 'e + 'a list" where
  "promise_all [] = Inr []"
| "promise_all (Inl e # _) = Inl e"
| "promise_all (Inr x # xs) =
     (case promise_all xs of Inl e \<Rightarrow> Inl e | Inr ys \<Rightarrow> Inr (x # ys))"

text \<open>The five \<open>await r.json()\<close> in sequence: the first parse error is thrown.\<close>

fun json_all :: "response list \<Rightarrow> string + json list" where
  "json_all [] = Inr []"
| "json_all (r # rs) =
     (case body r of
        Inl e \<Rightarrow> Inl e
      | Inr j \<Rightarrow> (case json_all rs of Inl e \<Rightarrow> Inl e | Inr js \<Rightarrow> Inr (j # js)))"

text \<open>\<open>c.features.length\<close>, which throws unless \<open>c\<close> is a collection.\<close>

fun features_count :: "json \<Rightarrow> string + nat" where
  "features_count (JCollection fs) = Inr (length fs)"
| "features_count JFalsy = Inl ''Cannot read properties of null (reading 'features')''"
| "features_count JOther = Inl ''Cannot read properties of undefined (reading 'length')''"

definition fail_load :: "string \<Rightarrow> app_state \<Rightarrow> app_state" where
  "fail_load msg s = s\<lparr>error := Some msg, loading := False\<rparr>"

text \<open>
  \<open>lvl\<close> is the \<open>adminLevel\<close> seen by \<open>getCurrentBoundaryData\<close> inside
  \<open>loadData\<close>: the closure is the one of the first render, so it is the initial level.
  The last branch cannot be taken: five responses parse to five values
  (\<open>json_all_length\<close>).
\<close>

type_synonym fetches =
  "fetch_outcome \<times> fetch_outcome \<times> fetch_outcome \<times> fetch_outcome \<times> fetch_outcome"

definition loadData :: "string \<Rightarrow> fetches \<Rightarrow> app_state \<Rightarrow> map_view \<Rightarrow> app_state \<times> map_view" where
  "loadData lvl fs s v =
     (case fs of (fp, fb, f0, f1, f2) \<Rightarrow>
      case promise_all [fp, fb, f0, f1, f2] of
        Inl msg \<Rightarrow> (fail_load msg s, v)
      | Inr responses \<Rightarrow>
          if \<not> list_all ok responses then (fail_load ''Failed to load data files'' s, v)
          else
            (case json_all responses of
               Inl msg \<Rightarrow> (fail_load msg s, v)
             | Inr [places, polygons, admin0, admin1, admin2] \<Rightarrow>
                 (let v' = v\<lparr>placesData := Some places, boundariesData := Some polygons,
                             adminData := [(''admin0'', admin0), (''admin1'', admin1),
                                           (''admin2'', admin2), (''populated_places'', polygons)]\<rparr>
                  in case features_count places of
                       Inl msg \<Rightarrow> (fail_load msg s, v')
                     | Inr n \<Rightarrow>
                         (case features_count (getCurrentBoundaryData (adminData v') lvl) of
                            Inl msg \<Rightarrow> (fail_load msg s, v')
                          | Inr m \<Rightarrow>
                              (s\<lparr>stats := (stats s)\<lparr>total := n, boundaries := m\<rparr>,
                                 error := None, loading := False\<rparr>, v')))
             | Inr _ \<Rightarrow> (s, v)))"

text \<open>What one fetch contributes when everything goes well: an ok response that parses.\<close>

fun parsed :: "fetch_outcome \<Rightarrow> json option" where
  "parsed (Inl _) = None"
| "parsed (Inr r) = (if ok r then (case body r of Inl _ \<Rightarrow> None | Inr j \<Rightarrow> Some j) else None)"

definition settle :: "fetch_outcome list \<Rightarrow> json list option" where
  "settle xs =
     (case promise_all xs of
        Inl _ \<Rightarrow> None
      | Inr rs \<Rightarrow>
          if list_all ok rs then (case json_all rs of Inl _ \<Rightarrow> None | Inr js \<Rightarrow> Some js)
          else None)"

lemma settle_those: "settle xs = those (map parsed xs)"
proof (induction xs)
  case Nil
  then show ?case by (simp add: settle_def)
next
  case (Cons x xs)
  then show ?case
    by (cases x) (auto simp: settle_def split: sum.splits option.splits if_splits dest: sym)
qed

lemma promise_all_length: "promise_all xs = Inr ys \<Longrightarrow> length ys = length xs"
  by (induction xs arbitrary: ys rule: promise_all.induct) (auto split: sum.splits)

lemma json_all_length: "json_all rs = Inr js \<Longrightarrow> length js = length rs"
  by (induction rs arbitrary: js) (auto split: sum.splits)

lemma those_None_iff: "those xs = None \<longleftrightarrow> None \<in> set xs"
  by (induction xs) (auto split: option.split)

lemma settle_Some:
  "settle xs = Some js \<Longrightarrow>
     \<exists>rs. promise_all xs = Inr rs \<and> list_all ok rs \<and> json_all rs = Inr js"
  by (auto simp: settle_def split: sum.splits if_splits)

lemma settle_None:
  "settle xs = None \<Longrightarrow>
     (\<exists>e. promise_all xs = Inl e) \<or>
     (\<exists>rs. promise_all xs = Inr rs \<and> \<not> list_all ok rs) \<or>
     (\<exists>rs e. promise_all xs = Inr rs \<and> list_all ok rs \<and> json_all rs = Inl e)"
  by (auto simp: settle_def split: sum.splits if_splits)

lemma loadData_settle_None:
  "settle [fp, fb, f0, f1, f2] = None \<Longrightarrow>
     \<exists>msg. loadData lvl (fp, fb, f0, f1, f2) s v = (fail_load msg s, v)"
  by (auto simp: loadData_def dest!: settle_None split: sum.splits)

lemma loadData_settle_Some:
  assumes "settle [fp, fb, f0, f1, f2] = Some [JCollection ps, b, a0, JCollection a1s, a2]"
  shows "loadData ''admin1'' (fp, fb, f0, f1, f2) s v =
           (s\<lparr>stats := (stats s)\<lparr>total := length ps, boundaries := length a1s\<rparr>,
              error := None, loading := False\<rparr>,
            v\<lparr>placesData := Some (JCollection ps), boundariesData := Some b,
              adminData := [(''admin0'', a0), (''admin1'', JCollection a1s), (''admin2'', a2),
                            (''populated_places'', b)]\<rparr>)"
proof -
  obtain rs where "promise_all [fp, fb, f0, f1, f2] = Inr rs" "list_all ok rs"
      "json_all rs = Inr [JCollection ps, b, a0, JCollection a1s, a2]"
    using assms by (blast dest: settle_Some)
  then show ?thesis
    by (simp add: loadData_def getCurrentBoundaryData_def)
qed

subsection \<open>Properties of the loader\<close>

text \<open>
  C3: loading is all-or-nothing when a fetch fails: if any of the five fetches rejects,
  answers with a non-ok status or returns a body that does not parse, no dataset is stored
  (the view is unchanged), the error is set and loading ends.
\<close>

theorem loadData_all_or_nothing:
  assumes "loadData lvl (fp, fb, f0, f1, f2) s v = (s', v')"
    and "None \<in> set (map parsed [fp, fb, f0, f1, f2])"
  shows "v' = v \<and> error s' \<noteq> None \<and> \<not> loading s'"
proof -
  have "settle [fp, fb, f0, f1, f2] = None"
    using assms(2) by (simp only: settle_those those_None_iff)
  then obtain msg where "loadData lvl (fp, fb, f0, f1, f2) s v = (fail_load msg s, v)"
    by (blast dest: loadData_settle_None)
  with assms(1) have "s' = fail_load msg s" "v' = v"
    by simp_all
  then show ?thesis
    by (simp add: fail_load_def)
qed

text \<open>
  C11: when every fetch succeeds and both the point collection and the default
  (\<open>admin1\<close>) boundary collection are feature collections, all five datasets are stored
  (the polygons also serve \<open>populated_places\<close>), the total is the number of points, the
  boundary count that of the \<open>admin1\<close> collection, the error is cleared and loading ends.
\<close>

theorem loadData_success:
  assumes "parsed fp = Some (JCollection ps)" "parsed fb = Some b" "parsed f0 = Some a0"
    "parsed f1 = Some (JCollection a1s)" "parsed f2 = Some a2"
  shows "loadData ''admin1'' (fp, fb, f0, f1, f2) s v =
           (s\<lparr>stats := (stats s)\<lparr>total := length ps, boundaries := length a1s\<rparr>,
              error := None, loading := False\<rparr>,
            v\<lparr>placesData := Some (JCollection ps), boundariesData := Some b,
              adminData := [(''admin0'', a0), (''admin1'', JCollection a1s), (''admin2'', a2),
                            (''populated_places'', b)]\<rparr>)"
proof -
  have "settle [fp, fb, f0, f1, f2] = Some [JCollection ps, b, a0, JCollection a1s, a2]"
    using assms by (simp add: settle_those)
  then show ?thesis
    by (rule loadData_settle_Some)
qed

end
