(* ===== verification/Controls.thy ===== *)
theory Controls
  imports ViewState
begin

text \<open>
  The control panel (\<open>src/web-app/src/components/Controls.jsx\<close>): each control's
  handler calls one setter of \<open>App\<close> with the control's new value, and the reset
  button calls \<open>resetView\<close>.  The selects can only produce the values of their
  options, and the admin level select is disabled while boundaries are hidden
  (line 55); the checkbox and the search box produce any boolean and any string.
\<close>

datatype ui_event =
    SetPlaceFilter string
  | SetShowBoundaries bool
  | SetAdminLevel string
  | SetSearchTerm string
  | SetMapStyle string
  | ResetView

definition placeFilter_options :: "string list" where
  "placeFilter_options = [''none'', ''all'', ''city'', ''town'', ''village'']"

definition adminLevel_options :: "string list" where
  "adminLevel_options = [''admin0'', ''admin1'', ''admin2'', ''populated_places'']"

definition mapStyle_options :: "string list" where
  "mapStyle_options = [''openstreetmap'', ''satellite'', ''terrain'', ''dark'', ''light'']"

fun control_enabled :: "app_state \<Rightarrow> ui_event \<Rightarrow> bool" where
  "control_enabled s (SetPlaceFilter x) = (x \<in> set placeFilter_options)"
| "control_enabled s (SetShowBoundaries b) = True"
| "control_enabled s (SetAdminLevel x) = (showBoundaries s \<and> x \<in> set adminLevel_options)"
| "control_enabled s (SetSearchTerm x) = True"
| "control_enabled s (SetMapStyle x) = (x \<in> set mapStyle_options)"
| "control_enabled s ResetView = True"

text \<open>The state after the handler's setter calls (one batched render).\<close>

fun apply_ui :: "ui_event \<Rightarrow> app_state \<Rightarrow> app_state" where
  "apply_ui (SetPlaceFilter x) s = s\<lparr>placeFilter := x\<rparr>"
| "apply_ui (SetShowBoundaries b) s = s\<lparr>showBoundaries := b\<rparr>"
| "apply_ui (SetAdminLevel x) s = s\<lparr>adminLevel := x\<rparr>"
| "apply_ui (SetSearchTerm x) s = s\<lparr>searchTerm := x\<rparr>"
| "apply_ui (SetMapStyle x) s = s\<lparr>mapStyle := x\<rparr>"
| "apply_ui ResetView s = reset_view s"

lemma apply_ui_keeps [simp]:
  "stats (apply_ui e s) = stats s" "loading (apply_ui e s) = loading s"
  "error (apply_ui e s) = error s"
  by (cases e; simp)+

end
