(* ===== verification/App.thy ===== *)
theory App
  imports Loader Controls
begin

text \<open>
  The view state controller: how \<open>App\<close> (\<open>app.jsx\<close>) and \<open>MapView\<close> react to
  events.  A control's handler updates \<open>App\<close>'s state (\<open>Controls.apply_ui\<close>);
  Preact then re-renders and runs the \<open>MapView\<close> effects whose dependency lists
  changed (\<open>commit\<close>): \<open>[placeFilter, searchTerm]\<close>, \<open>[showBoundaries]\<close>,
  \<open>[adminLevel]\<close> and \<open>[mapStyle]\<close> (\<open>MapView.jsx\<close> lines 310--351).  The other
  event is the settlement of the five fetches, which runs the rest of \<open>loadData\<close>
  with the admin level of the first render.  The system starts from the mounted
  component (\<open>Render.mount\<close> of the initial state); a step that throws ends the run.
\<close>

type_synonym sys = "app_state \<times> map_view"

datatype event = UI ui_event | LoadSettled fetches

definition commit :: "app_state \<Rightarrow> app_state \<Rightarrow> map_view \<Rightarrow> sys result" where
  "commit old s v =
     run_effects (placeFilter old \<noteq> placeFilter s \<or> searchTerm old \<noteq> searchTerm s)
                 (showBoundaries old \<noteq> showBoundaries s)
                 (adminLevel old \<noteq> adminLevel s)
                 (mapStyle old \<noteq> mapStyle s) s v"

fun step :: "sys \<Rightarrow> event \<Rightarrow> sys result" where
  "step (s, v) (UI e) = commit s (apply_ui e s) v"
| "step (s, v) (LoadSettled fs) = Inr (loadData (adminLevel initial_app) fs s v)"

text \<open>The fetches settle once, while loading; the controls are as \<open>Controls.jsx\<close> allows.\<close>

fun enabled :: "sys \<Rightarrow> event \<Rightarrow> bool" where
  "enabled (s, v) (UI e) = control_enabled s e"
| "enabled (s, v) (LoadSettled fs) = loading s"

definition start :: "sys result" where
  "start = mount initial_app empty_view"

inductive reachable :: "sys \<Rightarrow> bool" where
  init: "start = Inr sv \<Longrightarrow> reachable sv"
| step: "reachable sv \<Longrightarrow> enabled sv e \<Longrightarrow> step sv e = Inr sv' \<Longrightarrow> reachable sv'"

text \<open>A run of enabled events; a disabled event or an exception stops it.\<close>

fun run :: "sys \<Rightarrow> event list \<Rightarrow> sys result" where
  "run sv [] = Inr sv"
| "run sv (e # es) =
     (if enabled sv e then bind_r (step sv e) (\<lambda>sv'. run sv' es)
      else Inl (Error ''event not enabled''))"

definition initial_view :: map_view where
  "initial_view =
     \<lparr>mapInstance = True, map_layers = {PlacesGroup, TileLayer 1 openstreetmap},
      center = (155007 / 10000, 325599 / 10000), zoom = 6, next_stamp = 2,
      placesLayer = Some [], boundariesLayer = Some [], tileLayer = Some (1, openstreetmap),
      placesData = None, boundariesData = None, adminData = []\<rparr>"

subsection \<open>The invariant of the reachable states\<close>

fun is_tile :: "map_layer \<Rightarrow> bool" where
  "is_tile (TileLayer _ _) = True"
| "is_tile _ = False"

text \<open>The map exists with both layer groups; the boundary group is attached iff shown.\<close>

definition layers_ok :: "app_state \<Rightarrow> map_view \<Rightarrow> bool" where
  "layers_ok s v \<longleftrightarrow>
     mapInstance v \<and> placesLayer v \<noteq> None \<and> boundariesLayer v \<noteq> None \<and>
     PlacesGroup \<in> map_layers v \<and> (BoundariesGroup \<in> map_layers v \<longleftrightarrow> showBoundaries s)"

text \<open>Exactly one tile layer is attached, the current one, of the selected style.\<close>

definition tile_ok :: "app_state \<Rightarrow> map_view \<Rightarrow> bool" where
  "tile_ok s v \<longleftrightarrow>
     (\<exists>i. tileLayer v = Some (i, style_for (mapStyle s)) \<and> i < next_stamp v \<and>
          {l \<in> map_layers v. is_tile l} = {TileLayer i (style_for (mapStyle s))})"

text \<open>While loading, nothing is stored and nothing is drawn.\<close>

definition data_ok :: "app_state \<Rightarrow> map_view \<Rightarrow> bool" where
  "data_ok s v \<longleftrightarrow>
     (loading s \<longrightarrow>
        placesData v = None \<and> boundariesData v = None \<and> adminData v = [] \<and>
        placesLayer v = Some [] \<and> boundariesLayer v = Some [])"

text \<open>
  The places group holds nothing or one GeoJSON layer drawn from the current filters
  over the data in use, nothing under \<open>none\<close>, and the visible count is what it holds.
\<close>

definition places_ok :: "app_state \<Rightarrow> map_view \<Rightarrow> bool" where
  "places_ok s v \<longleftrightarrow>
     (\<forall>ls. placesLayer v = Some ls \<longrightarrow>
        visible (stats s) = sum_list (map length ls) \<and>
        (placeFilter s = ''none'' \<longrightarrow> ls = []) \<and>
        (ls = [] \<or>
         (\<exists>fs. ref_or (boundariesData v) (placesData v) = Some (JCollection fs) \<and>
               ls = [draw_places (filter_features (placeFilter s) (searchTerm s) fs)])))"

text \<open>
  The boundary group holds nothing or one GeoJSON layer drawn from the collection of
  some level, in that level's style.
\<close>

definition boundaries_ok :: "app_state \<Rightarrow> map_view \<Rightarrow> bool" where
  "boundaries_ok s v \<longleftrightarrow>
     (\<forall>ls. boundariesLayer v = Some ls \<longrightarrow>
        ls = [] \<or>
        (\<exists>lvl fs. getCurrentBoundaryData (adminData v) lvl = JCollection fs \<and>
                 ls = [draw_boundaries lvl fs]))"

definition app_inv :: "app_state \<Rightarrow> map_view \<Rightarrow> bool" where
  "app_inv s v \<longleftrightarrow>
     layers_ok s v \<and> tile_ok s v \<and> data_ok s v \<and> places_ok s v \<and> boundaries_ok s v"

lemma start_eq: "start = Inr (initial_app, initial_view)"
  by (simp add: start_def mount_def init_effect_def run_effects_def later_effects_def displayPlaces_def
      toggle_effect_def admin_level_effect_def map_style_effect_def add_layer_def
      remove_layer_def initial_app_def empty_view_def initial_view_def set_visible_def
      style_for_def mapStyles_def insert_Diff_if insert_commute)

subsection \<open>The invariant holds in every reachable state\<close>

lemma places_ok_cong:
  "places_ok s v \<Longrightarrow> placesLayer v' = placesLayer v \<Longrightarrow>
   boundariesData v' = boundariesData v \<Longrightarrow> placesData v' = placesData v \<Longrightarrow>
   placeFilter s' = placeFilter s \<Longrightarrow> searchTerm s' = searchTerm s \<Longrightarrow>
   visible (stats s') = visible (stats s) \<Longrightarrow> places_ok s' v'"
  by (simp add: places_ok_def)

lemma boundaries_ok_cong:
  "boundaries_ok s v \<Longrightarrow> boundariesLayer v' = boundariesLayer v \<Longrightarrow>
   adminData v' = adminData v \<Longrightarrow> boundaries_ok s' v'"
  by (simp add: boundaries_ok_def)

lemma data_ok_cong:
  "data_ok s v \<Longrightarrow> loading s' = loading s \<Longrightarrow> placesData v' = placesData v \<Longrightarrow>
   boundariesData v' = boundariesData v \<Longrightarrow> adminData v' = adminData v \<Longrightarrow>
   placesLayer v' = placesLayer v \<Longrightarrow> boundariesLayer v' = boundariesLayer v \<Longrightarrow> data_ok s' v'"
  by (simp add: data_ok_def)

lemma displayPlaces_places_ok:
  assumes "places_ok old v" "visible (stats s) = visible (stats old)"
    and "displayPlaces s v = Inr (s1, v1)"
  shows "places_ok s1 v1"
  using assms
  by (auto simp: places_ok_def displayPlaces_def Let_def
           split: option.splits json.splits if_splits)

lemma displayBoundaries_boundaries_ok: "boundaries_ok s' (displayBoundaries s v)"
  by (auto simp: boundaries_ok_def displayBoundaries_def split: option.splits json.splits)

lemma inv_init: "app_inv initial_app initial_view"
  by (auto simp: app_inv_def layers_ok_def tile_ok_def data_ok_def places_ok_def
      boundaries_ok_def initial_app_def initial_view_def style_for_def mapStyles_def)

lemma later_effects_places_ok:
  "places_ok s v \<Longrightarrow> later_effects b2 b3 b4 s v = (s', v') \<Longrightarrow> places_ok s' v'"
  by (auto simp: later_effects_def Let_def split: if_splits prod.splits
           dest!: admin_level_effect_cases elim!: places_ok_cong)

lemma later_effects_data_ok:
  "data_ok s v \<Longrightarrow> later_effects b2 b3 b4 s v = (s', v') \<Longrightarrow> data_ok s' v'"
  by (auto simp: later_effects_def data_ok_def Let_def split: if_splits prod.splits
           dest!: admin_level_effect_cases)

lemma tiles_toggle_effect:
  "{l \<in> map_layers (toggle_effect s v). is_tile l} = {l \<in> map_layers v. is_tile l}"
  by (auto simp: toggle_effect_def add_layer_def remove_layer_def)

lemma tile_mem_toggle_effect:
  "is_tile l \<Longrightarrow> l \<in> map_layers (toggle_effect s v) \<longleftrightarrow> l \<in> map_layers v"
  by (cases l) (auto simp: toggle_effect_def add_layer_def remove_layer_def)

lemma mid_effects_frame:
  assumes "(s3, v3) = (if b3 then admin_level_effect s v2 else (s, v2))"
    and "v2 = (if b2 then toggle_effect s v else v)"
  shows "tileLayer v3 = tileLayer v \<and> next_stamp v3 = next_stamp v \<and>
         {l \<in> map_layers v3. is_tile l} = {l \<in> map_layers v. is_tile l} \<and>
         mapStyle s3 = mapStyle s \<and> showBoundaries s3 = showBoundaries s \<and>
         mapInstance v3 = mapInstance v \<and>
         (placesLayer v3 = None \<longleftrightarrow> placesLayer v = None) \<and>
         (boundariesLayer v3 = None \<longleftrightarrow> boundariesLayer v = None) \<and>
         (PlacesGroup \<in> map_layers v3 \<longleftrightarrow> PlacesGroup \<in> map_layers v2) \<and>
         (BoundariesGroup \<in> map_layers v3 \<longleftrightarrow> BoundariesGroup \<in> map_layers v2)"
proof -
  have "(s3 = s \<and> v3 = v2) \<or> (\<exists>n. s3 = set_boundaries n s \<and> v3 = displayBoundaries s v2)"
    using assms(1) by (cases b3) (auto dest: admin_level_effect_cases [OF sym])
  then show ?thesis
    using assms(2) by (auto simp: tile_mem_toggle_effect)
qed

lemma later_effects_split:
  assumes "later_effects b2 b3 b4 s v = (s', v')"
  obtains s3 v3 where
    "(s3, v3) = (if b3 then admin_level_effect s (if b2 then toggle_effect s v else v)
                 else (s, if b2 then toggle_effect s v else v))"
    "s' = s3" "v' = (if b4 then map_style_effect s3 v3 else v3)"
  using assms by (auto simp: later_effects_def Let_def split: prod.splits)

lemma tile_ok_cong:
  "tile_ok s v \<Longrightarrow> tileLayer v' = tileLayer v \<Longrightarrow> next_stamp v' = next_stamp v \<Longrightarrow>
   {l \<in> map_layers v'. is_tile l} = {l \<in> map_layers v. is_tile l} \<Longrightarrow>
   mapStyle s' = mapStyle s \<Longrightarrow> tile_ok s' v'"
  by (simp add: tile_ok_def)

lemma map_style_effect_tile_ok:
  "tile_ok old v \<Longrightarrow> mapInstance v \<Longrightarrow> tile_ok s (map_style_effect s v)"
  by (auto simp: tile_ok_def map_style_effect_def add_layer_def remove_layer_def Let_def)

lemma later_effects_tile_ok:
  assumes "tile_ok old v" "mapInstance v" "b4 \<or> mapStyle s = mapStyle old"
    and "later_effects b2 b3 b4 s v = (s', v')"
  shows "tile_ok s' v'"
proof -
  obtain s3 v3 where mid:
      "(s3, v3) = (if b3 then admin_level_effect s (if b2 then toggle_effect s v else v)
                   else (s, if b2 then toggle_effect s v else v))"
    and fin: "s' = s3" "v' = (if b4 then map_style_effect s3 v3 else v3)"
    using assms(4) by (rule later_effects_split)
  have fr: "tileLayer v3 = tileLayer v" "next_stamp v3 = next_stamp v"
    "{l \<in> map_layers v3. is_tile l} = {l \<in> map_layers v. is_tile l}"
    "mapStyle s3 = mapStyle s" "mapInstance v3 = mapInstance v"
    using mid_effects_frame [OF mid refl] by simp_all
  show ?thesis
  proof (cases b4)
    case True
    have "tile_ok old v3"
      by (rule tile_ok_cong [OF assms(1)]) (simp_all add: fr)
    with fr assms(2) True fin show ?thesis
      by (simp add: map_style_effect_tile_ok)
  next
    case False
    with assms(3) fr fin show ?thesis
      by (auto intro: tile_ok_cong [OF assms(1)])
  qed
qed

lemma later_effects_layers_ok:
  assumes "layers_ok old v" "b2 \<or> showBoundaries s = showBoundaries old"
    and "later_effects b2 b3 b4 s v = (s', v')"
  shows "layers_ok s' v'"
proof -
  obtain s3 v3 where mid:
      "(s3, v3) = (if b3 then admin_level_effect s (if b2 then toggle_effect s v else v)
                   else (s, if b2 then toggle_effect s v else v))"
    and fin: "s' = s3" "v' = (if b4 then map_style_effect s3 v3 else v3)"
    using assms(3) by (rule later_effects_split)
  have inst: "mapInstance v" "placesLayer v \<noteq> None" "boundariesLayer v \<noteq> None"
    using assms(1) by (simp_all add: layers_ok_def)
  have v2: "(BoundariesGroup \<in> map_layers (if b2 then toggle_effect s v else v) \<longleftrightarrow>
             showBoundaries s) \<and>
            (PlacesGroup \<in> map_layers (if b2 then toggle_effect s v else v))"
    using assms(1,2) inst by (auto simp: layers_ok_def toggle_effect_layers)
  show ?thesis
    using mid_effects_frame [OF mid refl] v2 inst fin
    by (simp add: layers_ok_def del: not_None_eq)
qed

lemma later_effects_boundaries_ok:
  assumes "boundaries_ok s v" "later_effects b2 b3 b4 s v = (s', v')"
  shows "boundaries_ok s' v'"
proof -
  obtain s3 v3 where mid:
      "(s3, v3) = (if b3 then admin_level_effect s (if b2 then toggle_effect s v else v)
                   else (s, if b2 then toggle_effect s v else v))"
    and fin: "s' = s3" "v' = (if b4 then map_style_effect s3 v3 else v3)"
    using assms(2) by (rule later_effects_split)
  let ?v2 = "if b2 then toggle_effect s v else v"
  have v2: "boundaries_ok s ?v2"
    using assms(1) by (auto elim: boundaries_ok_cong)
  from mid have "v3 = ?v2 \<or> v3 = displayBoundaries s ?v2"
    by (cases b3) (auto dest: admin_level_effect_cases [OF sym])
  then have "boundaries_ok s3 v3"
    using v2 by (auto elim: boundaries_ok_cong intro: displayBoundaries_boundaries_ok)
  then show ?thesis
    using fin by (auto elim: boundaries_ok_cong)
qed


lemma displayPlaces_data_ok:
  "data_ok old v \<Longrightarrow> loading s = loading old \<Longrightarrow> displayPlaces s v = Inr (s1, v1) \<Longrightarrow>
   data_ok s1 v1"
  by (auto simp: data_ok_def displayPlaces_def Let_def split: option.splits json.splits if_splits)

lemma first_effect:
  assumes "app_inv old v" "stats s = stats old" "loading s = loading old"
    and "b1 \<or> (placeFilter s = placeFilter old \<and> searchTerm s = searchTerm old)"
    and "(if b1 then displayPlaces s v else Inr (s, v)) = Inr (s1, v1)"
  shows "layers_ok old v1 \<and> tile_ok old v1 \<and> mapInstance v1 \<and> data_ok s1 v1 \<and>
         places_ok s1 v1 \<and> boundaries_ok s1 v1 \<and>
         showBoundaries s1 = showBoundaries s \<and> mapStyle s1 = mapStyle s"
proof (cases b1)
  case True
  then have dp: "displayPlaces s v = Inr (s1, v1)"
    using assms(5) by simp
  note fr = displayPlaces_sel [OF dp]
  have "places_ok s1 v1"
    using assms(1,2) by (intro displayPlaces_places_ok [OF _ _ dp]) (simp_all add: app_inv_def)
  moreover have "data_ok s1 v1"
    using assms(1,3) dp by (auto simp: app_inv_def intro: displayPlaces_data_ok)
  moreover have "boundaries_ok s1 v1"
    using assms(1) fr by (auto simp: app_inv_def elim: boundaries_ok_cong)
  moreover have "layers_ok old v1 \<and> tile_ok old v1 \<and> mapInstance v1"
    using assms(1) fr by (simp add: app_inv_def layers_ok_def tile_ok_def)
  ultimately show ?thesis
    using fr by simp
next
  case False
  then have "s1 = s" "v1 = v"
    using assms(5) by simp_all
  with False assms(1-4) show ?thesis
    by (auto simp: app_inv_def layers_ok_def elim: places_ok_cong data_ok_cong boundaries_ok_cong)
qed

lemma commit_inv:
  assumes "app_inv old v" "stats s = stats old" "loading s = loading old"
    and "commit old s v = Inr (s', v')"
  shows "app_inv s' v'"
proof -
  let ?b1 = "placeFilter old \<noteq> placeFilter s \<or> searchTerm old \<noteq> searchTerm s"
  let ?b2 = "showBoundaries old \<noteq> showBoundaries s"
  let ?b3 = "adminLevel old \<noteq> adminLevel s"
  let ?b4 = "mapStyle old \<noteq> mapStyle s"
  have "bind_r (if ?b1 then displayPlaces s v else Inr (s, v))
          (\<lambda>(s1, v1). Inr (later_effects ?b2 ?b3 ?b4 s1 v1)) = Inr (s', v')"
    using assms(4) by (simp only: commit_def run_effects_def)
  then obtain s1 v1 where st1: "(if ?b1 then displayPlaces s v else Inr (s, v)) = Inr (s1, v1)"
      and lat: "later_effects ?b2 ?b3 ?b4 s1 v1 = (s', v')"
    by (auto simp: bind_r_Inr_iff)
  have "?b1 \<or> (placeFilter s = placeFilter old \<and> searchTerm s = searchTerm old)"
    by auto
  note fst = first_effect [OF assms(1-3) this st1]
  have "layers_ok s' v'"
    by (rule later_effects_layers_ok [OF _ _ lat]) (use fst in auto)
  moreover have "tile_ok s' v'"
    by (rule later_effects_tile_ok [OF _ _ _ lat]) (use fst in auto)
  moreover have "data_ok s' v'"
    by (rule later_effects_data_ok [OF _ lat]) (use fst in auto)
  moreover have "places_ok s' v'"
    by (rule later_effects_places_ok [OF _ lat]) (use fst in auto)
  moreover have "boundaries_ok s' v'"
    by (rule later_effects_boundaries_ok [OF _ lat]) (use fst in auto)
  ultimately show ?thesis
    by (simp add: app_inv_def)
qed

lemma loadData_frame:
  assumes "loadData lvl fs s v = (s', v')"
  shows "placeFilter s' = placeFilter s \<and> showBoundaries s' = showBoundaries s \<and>
         adminLevel s' = adminLevel s \<and> searchTerm s' = searchTerm s \<and>
         mapStyle s' = mapStyle s \<and> visible (stats s') = visible (stats s) \<and>
         mapInstance v' = mapInstance v \<and> map_layers v' = map_layers v \<and>
         tileLayer v' = tileLayer v \<and> next_stamp v' = next_stamp v \<and>
         placesLayer v' = placesLayer v \<and> boundariesLayer v' = boundariesLayer v \<and>
         center v' = center v \<and> zoom v' = zoom v \<and>
         (loading s \<longrightarrow> \<not> loading s')"
  using assms
  by (auto simp: loadData_def fail_load_def Let_def
           split: prod.splits sum.splits list.splits if_splits
           dest!: promise_all_length json_all_length)

lemma load_inv:
  assumes "app_inv s v" "loading s" "loadData lvl fs s v = (s', v')"
  shows "app_inv s' v'"
proof -
  note fr = loadData_frame [OF assms(3)]
  have empty: "placesLayer v = Some []" "boundariesLayer v = Some []" "visible (stats s) = 0"
    using assms(1,2) by (auto simp: app_inv_def data_ok_def places_ok_def)
  show ?thesis
    using assms(1,2) fr empty
    by (auto simp: app_inv_def layers_ok_def tile_ok_def data_ok_def places_ok_def
             boundaries_ok_def)
qed

lemma reachable_inv_sv: "reachable sv \<Longrightarrow> (case sv of (s, v) \<Rightarrow> app_inv s v)"
proof (induction rule: reachable.induct)
  case (init sv)
  then have "sv = (initial_app, initial_view)"
    by (simp add: start_eq)
  then show ?case
    by (simp add: inv_init)
next
  case (step sv e sv')
  obtain s0 v0 where sv: "sv = (s0, v0)" by (cases sv)
  obtain s v where sv': "sv' = (s, v)" by (cases sv')
  from step.IH sv have inv: "app_inv s0 v0" by simp
  have "app_inv s v"
  proof (cases e)
    case (UI u)
    have c: "commit s0 (apply_ui u s0) v0 = Inr (s, v)"
      using step.hyps(3) unfolding UI sv sv' by (simp only: step.simps)
    show ?thesis by (rule commit_inv [OF inv _ _ c]) simp_all
  next
    case (LoadSettled fs)
    have l: "loading s0"
      using step.hyps(2) unfolding LoadSettled sv by (simp only: enabled.simps)
    have d: "loadData (adminLevel initial_app) fs s0 v0 = (s, v)"
      using step.hyps(3) unfolding LoadSettled sv sv' by (simp only: step.simps sum.inject)
    show ?thesis by (rule load_inv [OF inv l d])
  qed
  with sv' show ?case by simp
qed

lemma reachable_inv: "reachable (s, v) \<Longrightarrow> app_inv s v"
  using reachable_inv_sv by fastforce

lemma displayPlaces_Inr:
  "ref_or (boundariesData v) (placesData v) \<noteq> Some JOther \<or> placeFilter s = ''none'' \<Longrightarrow>
   \<exists>r. displayPlaces s v = Inr r"
  by (auto simp: displayPlaces_def Let_def split: option.splits json.splits)

lemma commit_Inr:
  "ref_or (boundariesData v) (placesData v) \<noteq> Some JOther \<or> placeFilter s = ''none'' \<Longrightarrow>
   \<exists>r. commit old s v = Inr r"
  using displayPlaces_Inr [of v s]
  by (auto simp: commit_def run_effects_def)

lemma leaflet_geojson_style:
  "d \<in> set (leaflet_geojson sty pop fs) \<Longrightarrow> d_style d = Some st \<Longrightarrow> \<exists>f. st = sty f"
  by (auto simp: leaflet_geojson_def split: geometry.splits)

lemma draw_places_no_fill:
  "d \<in> set (draw_places fs) \<Longrightarrow> d_style d = Some st \<Longrightarrow> \<not> fill st \<and> fillOpacity st = 0"
  unfolding draw_places_def by (auto dest: leaflet_geojson_style)

lemma draw_boundaries_no_fill:
  "d \<in> set (draw_boundaries lvl fs) \<Longrightarrow> d_style d = Some st \<Longrightarrow> \<not> fill st \<and> fillOpacity st = 0"
  unfolding draw_boundaries_def by (auto dest: leaflet_geojson_style)

subsection \<open>Properties of the controller\<close>

text \<open>
  C1: in every reachable state the places layer group exists and holds at most one
  GeoJSON layer, drawn from the loaded polygon data (points if the polygons are falsy)
  filtered with the current category and search term; the visible count is the number of
  features it holds.  Re-rendering never accumulates stale geometry.
\<close>

theorem reachable_places_layer:
  "reachable (s, v) \<Longrightarrow>
     \<exists>ls. placesLayer v = Some ls \<and> length ls \<le> 1 \<and>
          visible (stats s) = sum_list (map length ls) \<and>
          (\<forall>l \<in> set ls. \<exists>fs. ref_or (boundariesData v) (placesData v) = Some (JCollection fs) \<and>
                             l = draw_places (filter_features (placeFilter s) (searchTerm s) fs))"
proof -
  assume "reachable (s, v)"
  then have "layers_ok s v" "places_ok s v"
    by (simp_all add: reachable_inv [unfolded app_inv_def])
  then show ?thesis
    by (auto simp: layers_ok_def places_ok_def)
qed

text \<open>
  C4: in every reachable state the boundary layer group is attached to the map exactly
  when the boundaries checkbox is ticked.
\<close>

theorem reachable_boundaries_shown:
  "reachable (s, v) \<Longrightarrow> BoundariesGroup \<in> map_layers v \<longleftrightarrow> showBoundaries s"
  using reachable_inv [unfolded app_inv_def layers_ok_def] by blast

text \<open>
  C8: in every reachable state exactly one basemap tile layer is attached, and it is the
  one of the selected style (OpenStreetMap for an unknown key).
\<close>

theorem reachable_one_tile:
  "reachable (s, v) \<Longrightarrow>
     \<exists>i. {l \<in> map_layers v. is_tile l} = {TileLayer i (style_for (mapStyle s))}"
  using reachable_inv [unfolded app_inv_def tile_ok_def] by blast

text \<open>
  C13: every geometry drawn in a reachable state, place or boundary, is an outline: its
  path style has \<open>fill\<close> off and a zero fill opacity.
\<close>

theorem reachable_no_fill:
  assumes "reachable (s, v)"
    and "placesLayer v = Some ls \<or> boundariesLayer v = Some ls"
    and "d \<in> set (concat ls)" "d_style d = Some st"
  shows "\<not> fill st \<and> fillOpacity st = 0"
proof -
  have "places_ok s v" "boundaries_ok s v"
    using reachable_inv [OF assms(1)] by (simp_all add: app_inv_def)
  have "\<exists>fs. d \<in> set (draw_places fs)" if "placesLayer v = Some ls"
    using that \<open>places_ok s v\<close> assms(3) by (auto simp: places_ok_def)
  moreover have "\<exists>lvl fs. d \<in> set (draw_boundaries lvl fs)" if "boundariesLayer v = Some ls"
    using that \<open>boundaries_ok s v\<close> assms(3) unfolding boundaries_ok_def by force
  ultimately show ?thesis
    using assms(2,4) draw_places_no_fill draw_boundaries_no_fill by blast
qed

lemma later_effects_props:
  "later_effects b2 b3 b4 s v = (s', v') \<Longrightarrow>
     placeFilter s' = placeFilter s \<and> showBoundaries s' = showBoundaries s \<and>
     adminLevel s' = adminLevel s \<and> searchTerm s' = searchTerm s \<and>
     mapStyle s' = mapStyle s \<and> visible (stats s') = visible (stats s) \<and>
     total (stats s') = total (stats s) \<and> loading s' = loading s \<and> error s' = error s"
  by (auto simp: later_effects_def Let_def split: if_splits prod.splits
           dest!: admin_level_effect_cases)

lemma commit_props:
  assumes "commit old s v = Inr (s', v')"
  shows "placeFilter s' = placeFilter s \<and> showBoundaries s' = showBoundaries s \<and>
     adminLevel s' = adminLevel s \<and> searchTerm s' = searchTerm s \<and>
     mapStyle s' = mapStyle s \<and> loading s' = loading s \<and> error s' = error s"
proof -
  obtain s1 v1 where st1:
      "(if placeFilter old \<noteq> placeFilter s \<or> searchTerm old \<noteq> searchTerm s
        then displayPlaces s v else Inr (s, v)) = Inr (s1, v1)"
    and lat: "later_effects (showBoundaries old \<noteq> showBoundaries s)
                (adminLevel old \<noteq> adminLevel s) (mapStyle old \<noteq> mapStyle s) s1 v1 = (s', v')"
    using assms by (auto simp: commit_def run_effects_def bind_r_Inr_iff)
  have "placeFilter s1 = placeFilter s \<and> showBoundaries s1 = showBoundaries s \<and>
     adminLevel s1 = adminLevel s \<and> searchTerm s1 = searchTerm s \<and>
     mapStyle s1 = mapStyle s \<and> loading s1 = loading s \<and> error s1 = error s"
    using st1 by (auto split: if_splits dest: displayPlaces_sel)
  with later_effects_props [OF lat] show ?thesis by simp
qed

text \<open>
  C6: unticking and ticking the boundaries checkbox again, without changing the admin
  level, gives back exactly the state before: the same boundary geometry is shown, none
  is lost and none is duplicated.
\<close>

theorem toggle_off_on:
  assumes "reachable (s, v)" "showBoundaries s"
  shows "bind_r (step (s, v) (UI (SetShowBoundaries False)))
           (\<lambda>sv. step sv (UI (SetShowBoundaries True))) = Inr (s, v)"
proof -
  have l: "layers_ok s v"
    using reachable_inv [OF assms(1)] by (simp add: app_inv_def)
  then obtain ls where "BoundariesGroup \<in> map_layers v" "mapInstance v"
      "boundariesLayer v = Some ls"
    using assms(2) by (auto simp: layers_ok_def)
  then show ?thesis
    using assms(2)
    by (simp add: commit_def run_effects_def later_effects_def toggle_effect_def
        add_layer_def remove_layer_def insert_absorb)
qed

text \<open>
  C7: the reset button works from every reachable state: it never throws, and afterwards
  the filters have their documented defaults, the boundary layer is hidden, the places
  layer is empty and the visible count is zero.
\<close>

theorem reset_view_defaults:
  assumes "reachable (s, v)"
  shows "\<exists>s' v'. step (s, v) (UI ResetView) = Inr (s', v') \<and>
           placeFilter s' = ''none'' \<and> searchTerm s' = [] \<and> \<not> showBoundaries s' \<and>
           adminLevel s' = ''admin1'' \<and> mapStyle s' = ''openstreetmap'' \<and>
           BoundariesGroup \<notin> map_layers v' \<and> placesLayer v' = Some [] \<and>
           visible (stats s') = 0"
proof -
  obtain s' v' where st: "step (s, v) (UI ResetView) = Inr (s', v')"
    using commit_Inr [of v "reset_view s" s] by auto
  have "reachable (s', v')"
    by (rule reachable.step [OF assms _ st]) simp
  then have inv: "app_inv s' v'" by (rule reachable_inv)
  have props: "placeFilter s' = ''none''" "searchTerm s' = []" "\<not> showBoundaries s'"
    "adminLevel s' = ''admin1''" "mapStyle s' = ''openstreetmap''"
    using commit_props [of s "reset_view s" v s' v'] st by simp_all
  with inv have "BoundariesGroup \<notin> map_layers v' \<and> placesLayer v' = Some [] \<and>
                 visible (stats s') = 0"
    by (auto simp: app_inv_def layers_ok_def places_ok_def)
  with st props show ?thesis by blast
qed

text \<open>
  C10: no step throws unless the dataset the places layer draws from is a truthy JSON value
  without a \<open>features\<close> array: with well-formed (or absent) data every event, user action
  or fetch settlement, is handled without an exception.
\<close>

theorem step_no_throw:
  "ref_or (boundariesData v) (placesData v) \<noteq> Some JOther \<Longrightarrow> \<exists>r. step (s, v) e = Inr r"
proof (cases e)
  case (UI u)
  assume "ref_or (boundariesData v) (placesData v) \<noteq> Some JOther"
  then obtain r where "commit s (apply_ui u s) v = Inr r"
    using commit_Inr by blast
  with UI show ?thesis by simp
next
  case (LoadSettled fs)
  then show ?thesis by simp
qed

text \<open>
  C9: switching the basemap replaces only the tile layer: the overlays, their contents,
  the viewport and the statistics are unchanged, and the one attached tile layer is that
  of the chosen style.
\<close>

theorem set_basemap:
  assumes "reachable (s, v)" "k \<in> set mapStyle_options"
    and "step (s, v) (UI (SetMapStyle k)) = Inr (s', v')"
  shows "placesLayer v' = placesLayer v \<and> boundariesLayer v' = boundariesLayer v \<and>
         center v' = center v \<and> zoom v' = zoom v \<and> stats s' = stats s \<and>
         (BoundariesGroup \<in> map_layers v' \<longleftrightarrow> BoundariesGroup \<in> map_layers v) \<and>
         (PlacesGroup \<in> map_layers v' \<longleftrightarrow> PlacesGroup \<in> map_layers v) \<and>
         (\<exists>i. {l \<in> map_layers v'. is_tile l} = {TileLayer i (style_for k)})"
proof -
  have fr: "placesLayer v' = placesLayer v \<and> boundariesLayer v' = boundariesLayer v \<and>
         center v' = center v \<and> zoom v' = zoom v \<and> stats s' = stats s \<and>
         (BoundariesGroup \<in> map_layers v' \<longleftrightarrow> BoundariesGroup \<in> map_layers v) \<and>
         (PlacesGroup \<in> map_layers v' \<longleftrightarrow> PlacesGroup \<in> map_layers v) \<and> mapStyle s' = k"
    using assms(3)
    by (auto simp: commit_def run_effects_def later_effects_def split: if_splits)
  have "reachable (s', v')"
    by (rule reachable.step [OF assms(1) _ assms(3)]) (simp add: assms(2))
  then have "tile_ok s' v'"
    using reachable_inv by (simp add: app_inv_def)
  with fr show ?thesis
    by (auto simp: tile_ok_def)
qed

lemma run_reachable: "reachable sv \<Longrightarrow> run sv es = Inr sv' \<Longrightarrow> reachable sv'"
proof (induction es arbitrary: sv)
  case Nil
  then show ?case by simp
next
  case (Cons e es)
  then show ?case
    by (auto simp: bind_r_Inr_iff split: if_splits intro: reachable.step)
qed

lemma reachable_start: "reachable (initial_app, initial_view)"
  by (rule reachable.init) (rule start_eq)

end
