(* ===== verification/Refinement.thy ===== *)
theory Refinement
  imports App
begin

text \<open>
  Two components checked against the abstract contracts of the specification.  The data
  loader: the specification's loader (section 4.1) is an all-or-nothing join of five
  collections, published together with the initial counts, or a failure that publishes
  nothing; \<open>load_spec\<close> states it over the bodies the fetches yield, \<open>abs_load\<close>
  forgets what the contract does not speak of (the error message, the view state), and
  \<open>loadData_refines\<close> shows that the code implements the contract whenever every body
  that parses is a feature collection (on other bodies it does not: see the finding
  \<open>bad_points_partial_load\<close>).  The places renderer: the specification's
  \<open>filterFeatures\<close> then \<open>renderPlaces\<close> (sections 4.2, 4.4, 4.6) is
  \<open>places_spec\<close>, and \<open>shown_places\<close> reads back the features drawn in the places
  layer group; every change of category or search term leaves exactly the specified
  features on the map.
\<close>

subsection \<open>The loader contract\<close>

record load_view =
  lv_failed :: bool
  lv_loading :: bool
  lv_counts :: "nat \<times> nat"
  lv_data :: "json option \<times> json option \<times> (string \<times> json) list"

definition abs_load :: "app_state \<Rightarrow> map_view \<Rightarrow> load_view" where
  "abs_load s v =
     \<lparr>lv_failed = (error s \<noteq> None), lv_loading = loading s,
      lv_counts = (total (stats s), boundaries (stats s)),
      lv_data = (placesData v, boundariesData v, adminData v)\<rparr>"

fun is_collection :: "json \<Rightarrow> bool" where
  "is_collection (JCollection _) = True"
| "is_collection _ = False"

text \<open>Every body that parsed is a feature collection.\<close>

definition bodies_wf :: "json option list \<Rightarrow> bool" where
  "bodies_wf bodies = list_all (case_option True is_collection) bodies"

definition load_failed :: "load_view \<Rightarrow> load_view" where
  "load_failed a = a\<lparr>lv_failed := True, lv_loading := False\<rparr>"

definition load_spec :: "json option list \<Rightarrow> load_view \<Rightarrow> load_view" where
  "load_spec bodies a =
     (case those bodies of
        Some [JCollection ps, JCollection bs, JCollection a0, JCollection a1, JCollection a2] \<Rightarrow>
          a\<lparr>lv_failed := False, lv_loading := False, lv_counts := (length ps, length a1),
            lv_data := (Some (JCollection ps), Some (JCollection bs),
                        [(''admin0'', JCollection a0), (''admin1'', JCollection a1),
                         (''admin2'', JCollection a2), (''populated_places'', JCollection bs)])\<rparr>
      | _ \<Rightarrow> load_failed a)"

subsection \<open>The places contract\<close>

definition shown_places :: "map_view \<Rightarrow> feature list" where
  "shown_places v = (case placesLayer v of Some ls \<Rightarrow> map d_feature (concat ls) | None \<Rightarrow> [])"

definition places_spec :: "feature list \<Rightarrow> string \<Rightarrow> string \<Rightarrow> feature list" where
  "places_spec fs pf st =
     (if pf = ''none'' then []
      else [f \<leftarrow> fs. (pf = ''all'' \<or> place (properties f) = Some pf) \<and>
                    (st = [] \<or>
                     (case name (properties f) of
                        Some n \<Rightarrow> sublist (to_lower st) (to_lower n)
                      | None \<Rightarrow> False))])"

subsection \<open>Lemmas\<close>

lemma is_collection_iff: "is_collection j \<longleftrightarrow> (\<exists>fs. j = JCollection fs)"
  by (cases j) simp_all

lemma those_five:
  "those [a, b, c, d, e] = Some js \<longleftrightarrow>
     (\<exists>a' b' c' d' e'. a = Some a' \<and> b = Some b' \<and> c = Some c' \<and> d = Some d' \<and> e = Some e' \<and>
        js = [a', b', c', d', e'])"
  by (auto split: option.splits)

lemma map_d_feature_draw_places [simp]: "map d_feature (draw_places fs) = fs"
  by (induction fs) (simp_all add: draw_places_def leaflet_geojson_def)

lemma keep_places_pred:
  "keep pf st f \<longleftrightarrow>
     (pf = ''all'' \<or> place (properties f) = Some pf) \<and>
     (st = [] \<or>
      (case name (properties f) of Some n \<Rightarrow> sublist (to_lower st) (to_lower n) | None \<Rightarrow> False))"
  by (cases "name (properties f)")
     (auto simp: keep_def place_matches_def name_matches_def str_includes_sublist to_lower_def)

lemma keep_places_spec:
  "pf \<noteq> ''none'' \<Longrightarrow> filter (keep pf st) fs = places_spec fs pf st"
  unfolding places_spec_def by (simp add: keep_places_pred [abs_def])

lemma filter_features_places_spec:
  "pf \<noteq> ''none'' \<Longrightarrow> filter_features pf st fs = places_spec fs pf st"
  by (simp add: filter_features_keep keep_places_spec)

lemma later_effects_places_frame:
  "later_effects b2 b3 b4 s v = (s', v') \<Longrightarrow>
     placesLayer v' = placesLayer v \<and> visible (stats s') = visible (stats s)"
  by (auto simp: later_effects_def Let_def split: if_splits prod.splits
           dest!: admin_level_effect_cases)

lemma displayPlaces_shown:
  assumes "placesLayer v \<noteq> None" "ref_or (boundariesData v) (placesData v) = Some (JCollection fs)"
    and "displayPlaces t v = Inr (s1, v1)"
  shows "shown_places v1 = places_spec fs (placeFilter t) (searchTerm t) \<and>
         visible (stats s1) = length (shown_places v1)"
proof (cases "placeFilter t = ''none''")
  case True
  with assms show ?thesis
    by (auto simp: displayPlaces_def shown_places_def places_spec_def)
next
  case False
  with assms show ?thesis
    by (auto simp: displayPlaces_def shown_places_def filter_features_places_spec Let_def)
qed

subsection \<open>Refinement\<close>

text \<open>
  C24: the data loader implements the all-or-nothing contract of the specification: when
  every body that parses is a feature collection, the settlement of the five fetches, seen
  through \<open>abs_load\<close>, is exactly \<open>load_spec\<close> of the bodies: either all five
  collections are published with the point count and the \<open>admin1\<close> count, or the load
  fails and nothing is published.
\<close>

theorem loadData_refines:
  assumes "bodies_wf (map parsed [fp, fb, f0, f1, f2])"
  shows "case_prod abs_load (loadData ''admin1'' (fp, fb, f0, f1, f2) s v) =
           load_spec (map parsed [fp, fb, f0, f1, f2]) (abs_load s v)"
proof (cases "those (map parsed [fp, fb, f0, f1, f2])")
  case None
  then have "settle [fp, fb, f0, f1, f2] = None"
    by (simp only: settle_those)
  then obtain msg where "loadData ''admin1'' (fp, fb, f0, f1, f2) s v = (fail_load msg s, v)"
    by (blast dest: loadData_settle_None)
  with None show ?thesis
    by (simp add: abs_load_def load_spec_def load_failed_def fail_load_def)
next
  case (Some js)
  then obtain p b a0 a1 a2 where pa: "parsed fp = Some p" "parsed fb = Some b"
      "parsed f0 = Some a0" "parsed f1 = Some a1" "parsed f2 = Some a2" "js = [p, b, a0, a1, a2]"
    by (auto simp: those_five simp del: those.simps)
  with assms obtain ps bs as0 as1 as2 where cs: "p = JCollection ps" "b = JCollection bs"
      "a0 = JCollection as0" "a1 = JCollection as1" "a2 = JCollection as2"
    by (auto simp: bodies_wf_def is_collection_iff)
  have "settle [fp, fb, f0, f1, f2] =
          Some [JCollection ps, JCollection bs, JCollection as0, JCollection as1, JCollection as2]"
    using pa cs by (simp add: settle_those)
  then have "loadData ''admin1'' (fp, fb, f0, f1, f2) s v =
      (s\<lparr>stats := (stats s)\<lparr>total := length ps, boundaries := length as1\<rparr>,
         error := None, loading := False\<rparr>,
       v\<lparr>placesData := Some (JCollection ps), boundariesData := Some (JCollection bs),
         adminData := [(''admin0'', JCollection as0), (''admin1'', JCollection as1),
                       (''admin2'', JCollection as2), (''populated_places'', JCollection bs)]\<rparr>)"
    by (rule loadData_settle_Some)
  then show ?thesis
    using pa cs by (simp add: abs_load_def load_spec_def)
qed

text \<open>
  C25: every change of the category or the search term re-renders the places as the
  specification prescribes: from a reachable state with loaded data, the features drawn
  afterwards are exactly \<open>places_spec\<close> of the data for the new filters (none for the
  category \<open>none\<close>), in the order of the collection, and the visible count is their
  number.
\<close>

theorem filter_change_refines:
  assumes "reachable (s, v)" "ref_or (boundariesData v) (placesData v) = Some (JCollection fs)"
    and "step (s, v) (UI e) = Inr (s', v')"
    and "placeFilter s' \<noteq> placeFilter s \<or> searchTerm s' \<noteq> searchTerm s"
  shows "shown_places v' = places_spec fs (placeFilter s') (searchTerm s') \<and>
         visible (stats s') = length (shown_places v')"
proof -
  let ?t = "apply_ui e s"
  have c: "commit s ?t v = Inr (s', v')"
    using assms(3) by simp
  note pr = commit_props [OF c]
  have b1: "placeFilter s \<noteq> placeFilter ?t \<or> searchTerm s \<noteq> searchTerm ?t"
    using assms(4) pr by auto
  obtain s1 v1 where dp: "displayPlaces ?t v = Inr (s1, v1)"
    and lat: "later_effects (showBoundaries s \<noteq> showBoundaries ?t) (adminLevel s \<noteq> adminLevel ?t)
                (mapStyle s \<noteq> mapStyle ?t) s1 v1 = (s', v')"
    using c b1 by (auto simp: commit_def run_effects_def bind_r_Inr_iff)
  have "placesLayer v \<noteq> None"
    using reachable_inv [OF assms(1)] by (simp add: app_inv_def layers_ok_def)
  note sh = displayPlaces_shown [OF this assms(2) dp]
  have "shown_places v' = shown_places v1" "visible (stats s') = visible (stats s1)"
    using later_effects_places_frame [OF lat] by (simp_all add: shown_places_def)
  with sh pr show ?thesis
    by simp
qed

end
