(* ===== verification/Controller.thy ===== *)
theory Controller
  imports App
begin

text \<open>
  Further properties of the view state controller.  The enumerated fields: the three
  selects of \<open>Controls.jsx\<close> can only produce their options, so in every reachable
  state the place category, the admin level and the basemap key are values of the
  enumerations of the specification, and the basemap lookup never falls back.  The admin
  level: a change of level while the boundaries are shown redraws them.
\<close>

text \<open>The values each select of \<open>Controls.jsx\<close> offers, as a property of a state.\<close>

definition enums_ok :: "app_state \<Rightarrow> bool" where
  "enums_ok s \<longleftrightarrow>
     placeFilter s \<in> set placeFilter_options \<and> adminLevel s \<in> set adminLevel_options \<and>
     mapStyle s \<in> set mapStyle_options"

subsection \<open>Lemmas\<close>

lemma enums_ok_step:
  assumes "enums_ok s" "enabled (s, v) e" "step (s, v) e = Inr (s', v')"
  shows "enums_ok s'"
proof (cases e)
  case (UI u)
  then have c: "commit s (apply_ui u s) v = Inr (s', v')"
    using assms(3) by simp
  have "enums_ok (apply_ui u s)"
    using assms(1,2) UI
    by (cases u) (auto simp: enums_ok_def reset_view_def placeFilter_options_def
                    adminLevel_options_def mapStyle_options_def)
  then show ?thesis
    using commit_props [OF c] by (simp add: enums_ok_def)
next
  case (LoadSettled fs)
  then have "loadData (adminLevel initial_app) fs s v = (s', v')"
    using assms(3) by simp
  then show ?thesis
    using assms(1) loadData_frame by (simp add: enums_ok_def)
qed

lemma reachable_enums_ok: "reachable sv \<Longrightarrow> enums_ok (fst sv)"
proof (induction rule: reachable.induct)
  case (init sv)
  then have "sv = (initial_app, initial_view)"
    by (simp add: start_eq)
  then show ?case
    by (simp add: enums_ok_def initial_app_def placeFilter_options_def
        adminLevel_options_def mapStyle_options_def)
next
  case (step sv e sv')
  obtain s v where sv: "sv = (s, v)" by (cases sv)
  obtain s' v' where sv': "sv' = (s', v')" by (cases sv')
  from step sv sv' show ?case
    by (auto intro: enums_ok_step)
qed

subsection \<open>Properties\<close>

text \<open>
  C26: in every reachable state the place category, the admin level and the basemap key
  are values of their enumerations (the options of the three selects), and the basemap key
  is a key of \<open>mapStyles\<close>, so the lookup \<open>mapStyles[mapStyle]\<close> never falls back.
\<close>

theorem reachable_enums:
  "reachable (s, v) \<Longrightarrow>
     placeFilter s \<in> set placeFilter_options \<and> adminLevel s \<in> set adminLevel_options \<and>
     mapStyle s \<in> set mapStyle_options \<and> map_of mapStyles (mapStyle s) \<noteq> None"
  using reachable_enums_ok [of "(s, v)"]
  by (auto simp: enums_ok_def mapStyle_options_def mapStyles_def)

text \<open>
  C27: choosing another admin level while the boundaries are shown redraws them: the
  boundary group, still attached, holds exactly the loaded collection of the new level
  drawn in that level's style, and the boundary count is its size.
\<close>

theorem set_admin_level_redraws:
  assumes "reachable (s, v)" "showBoundaries s" "adminLevel s \<noteq> l"
    and "map_of (adminData v) l = Some (JCollection fs)"
    and "step (s, v) (UI (SetAdminLevel l)) = Inr (s', v')"
  shows "adminLevel s' = l \<and> BoundariesGroup \<in> map_layers v' \<and>
         boundariesLayer v' = Some [draw_boundaries l fs] \<and> boundaries (stats s') = length fs"
proof -
  have l: "layers_ok s v"
    using reachable_inv [OF assms(1)] by (simp add: app_inv_def)
  then obtain ls where "boundariesLayer v = Some ls" "BoundariesGroup \<in> map_layers v"
    using assms(2) by (auto simp: layers_ok_def)
  then show ?thesis
    using assms(2-5)
    by (auto simp: commit_def run_effects_def later_effects_def admin_level_effect_def
             displayBoundaries_def getCurrentBoundaryData_def Let_def)
qed

end
