(* ===== verification/Stats.thy ===== *)
theory Stats
  imports ViewState Format
begin

text \<open>
  The statistics panel (\<open>src/web-app/src/components/Stats.jsx\<close>): what the three
  counters and the error box show for given statistics, loading flag and error.  The
  total and boundary counters show the loading text while loading and the error text
  when the error is truthy (a non-empty message); the visible counter always shows its
  number.  Numbers go through \<open>toLocaleString\<close> (\<open>Format.to_locale_string\<close>).
\<close>

datatype stat_text = LoadingText | ErrorText | Count string

record stats_panel =
  total_text :: stat_text
  visible_text :: stat_text
  boundaries_text :: stat_text
  error_box :: "string option"

definition count_text :: "bool \<Rightarrow> string option \<Rightarrow> nat \<Rightarrow> stat_text" where
  "count_text ld err n =
     (if ld then LoadingText
      else if truthy_str err then ErrorText
      else Count (to_locale_string (int n)))"

definition render_stats :: "stats \<Rightarrow> bool \<Rightarrow> string option \<Rightarrow> stats_panel" where
  "render_stats st ld err =
     \<lparr>total_text = count_text ld err (total st),
      visible_text = Count (to_locale_string (int (visible st))),
      boundaries_text = count_text ld err (boundaries st),
      error_box = (if truthy_str err then err else None)\<rparr>"

subsection \<open>Properties\<close>

text \<open>
  C19: once loading has ended with a (non-empty) error, the total and boundary counters
  show the error text and the error box shows the message, but the visible counter still
  shows a number: not every count display switches to the error indicator.
\<close>

theorem render_stats_error:
  "truthy_str err \<Longrightarrow>
     total_text (render_stats st False err) = ErrorText \<and>
     boundaries_text (render_stats st False err) = ErrorText \<and>
     error_box (render_stats st False err) = err \<and>
     visible_text (render_stats st False err) = Count (to_locale_string (int (visible st)))"
  by (simp add: render_stats_def count_text_def)

end
