(* ===== verification/Findings.thy ===== *)
theory Findings
  imports App Stats
begin

text \<open>
  Where the code departs from the specification, stated for every state and every
  outcome of the fetches rather than for one run.  The boundary layer group is only
  redrawn by the \<open>[adminLevel]\<close> effect, and only while the boundaries are shown, so
  showing them never draws (\<open>show_after_load_draws_nothing\<close>) and a reset leaves the
  geometry of the old level in the group (\<open>reset_keeps_stale_boundaries\<close>).  The load
  reads the admin level of the first render (\<open>load_counts_admin1\<close>), draws nothing
  whatever was chosen while loading (\<open>load_draws_nothing\<close>), stores the data before
  counting it (\<open>bad_points_partial_load\<close>) and never checks the polygon file
  (\<open>bad_polygons_crash\<close>).  A load that fails on a status shows the error as the
  specification's scenario says (\<open>failed_load_shows_error\<close>).  Each theorem has a
  witness on the sample data in \<open>Spec2Isabelle\<close>.
\<close>

subsection \<open>Lemmas\<close>

text \<open>
  A commit in which the admin level effect does not fire, or fires while the boundaries
  are hidden, leaves the boundary group's content and the boundary count alone.
\<close>

lemma commit_boundaries_frame:
  assumes "commit old s v = Inr (s', v')"
    and "adminLevel old = adminLevel s \<or> \<not> showBoundaries s"
  shows "boundariesLayer v' = boundariesLayer v \<and> boundaries (stats s') = boundaries (stats s)"
proof -
  let ?b1 = "placeFilter old \<noteq> placeFilter s \<or> searchTerm old \<noteq> searchTerm s"
  obtain s1 v1 where st1: "(if ?b1 then displayPlaces s v else Inr (s, v)) = Inr (s1, v1)"
    and lat: "later_effects (showBoundaries old \<noteq> showBoundaries s)
                (adminLevel old \<noteq> adminLevel s) (mapStyle old \<noteq> mapStyle s) s1 v1 = (s', v')"
    using assms(1) by (auto simp: commit_def run_effects_def bind_r_Inr_iff)
  have f1: "boundariesLayer v1 = boundariesLayer v" "boundaries (stats s1) = boundaries (stats s)"
    "showBoundaries s1 = showBoundaries s"
    using st1 by (auto split: if_splits dest: displayPlaces_sel)
  show ?thesis
    using lat assms(2) f1
    by (auto simp: later_effects_def admin_level_effect_def Let_def split: if_splits)
qed

lemma loading_view:
  assumes "reachable (s, v)" "loading s"
  shows "placesLayer v = Some [] \<and> boundariesLayer v = Some [] \<and> visible (stats s) = 0 \<and>
         placesData v = None \<and> boundariesData v = None \<and> adminData v = []"
proof -
  have "data_ok s v" "places_ok s v"
    using reachable_inv [OF assms(1)] by (simp_all add: app_inv_def)
  with assms(2) show ?thesis
    by (simp add: data_ok_def places_ok_def)
qed

lemma adminLevel_initial_app [simp]: "adminLevel initial_app = ''admin1''"
  by (simp add: initial_app_def)

lemma loadData_settle:
  assumes "settle [fp, fb, f0, f1, f2] = Some [p, b, a0, a1, a2]"
  shows "loadData lvl (fp, fb, f0, f1, f2) s v =
           (let v' = v\<lparr>placesData := Some p, boundariesData := Some b,
                       adminData := [(''admin0'', a0), (''admin1'', a1), (''admin2'', a2),
                                     (''populated_places'', b)]\<rparr>
            in case features_count p of
                 Inl msg \<Rightarrow> (fail_load msg s, v')
               | Inr n \<Rightarrow>
                   (case features_count (getCurrentBoundaryData (adminData v') lvl) of
                      Inl msg \<Rightarrow> (fail_load msg s, v')
                    | Inr m \<Rightarrow>
                        (s\<lparr>stats := (stats s)\<lparr>total := n, boundaries := m\<rparr>,
                           error := None, loading := False\<rparr>, v')))"
proof -
  obtain rs where "promise_all [fp, fb, f0, f1, f2] = Inr rs" "list_all ok rs"
      "json_all rs = Inr [p, b, a0, a1, a2]"
    using assms by (blast dest: settle_Some)
  then show ?thesis
    by (simp add: loadData_def)
qed

subsection \<open>Properties\<close>

text \<open>
  C28: a load that fails because a response is not ok, from any reachable loading state,
  ends in the error state: loading is over, the total and boundary counters show the error
  indicator, nothing is stored and both layer groups are empty.
\<close>

theorem failed_load_shows_error:
  assumes "reachable (s, v)" "loading s"
    and "promise_all [fp, fb, f0, f1, f2] = Inr rs" "\<not> list_all ok rs"
    and "step (s, v) (LoadSettled (fp, fb, f0, f1, f2)) = Inr (s', v')"
  shows "error s' = Some ''Failed to load data files'' \<and> \<not> loading s' \<and>
         total_text (render_stats (stats s') (loading s') (error s')) = ErrorText \<and>
         boundaries_text (render_stats (stats s') (loading s') (error s')) = ErrorText \<and>
         placesLayer v' = Some [] \<and> boundariesLayer v' = Some [] \<and>
         placesData v' = None \<and> boundariesData v' = None \<and> adminData v' = []"
proof -
  have "s' = fail_load ''Failed to load data files'' s" "v' = v"
    using assms(3-5) by (simp_all add: loadData_def)
  with loading_view [OF assms(1,2)] show ?thesis
    by (simp add: fail_load_def render_stats_def count_text_def)
qed

text \<open>
  C29: a reset does not refresh the boundaries: from any reachable state with the
  boundaries shown, resetting and ticking the checkbox again shows the geometry and the
  count the group held before, while the admin level is now \<open>admin1\<close>.  When another
  level was shown, the map shows that level under the \<open>admin1\<close> setting; the
  specification says the reset applies all consequent transitions.
\<close>

theorem reset_keeps_stale_boundaries:
  assumes "reachable (s, v)" "showBoundaries s"
    and "bind_r (step (s, v) (UI ResetView)) (\<lambda>sv. step sv (UI (SetShowBoundaries True))) =
           Inr (s', v')"
  shows "adminLevel s' = ''admin1'' \<and> showBoundaries s' \<and> BoundariesGroup \<in> map_layers v' \<and>
         boundariesLayer v' = boundariesLayer v \<and> boundaries (stats s') = boundaries (stats s)"
proof -
  obtain s1 v1 where st1: "step (s, v) (UI ResetView) = Inr (s1, v1)"
    and st2: "step (s1, v1) (UI (SetShowBoundaries True)) = Inr (s', v')"
    using assms(3) by (auto simp: bind_r_Inr_iff)
  have c1: "commit s (reset_view s) v = Inr (s1, v1)"
    using st1 by simp
  have c2: "commit s1 (s1\<lparr>showBoundaries := True\<rparr>) v1 = Inr (s', v')"
    using st2 by simp
  note p1 = commit_props [OF c1] and p2 = commit_props [OF c2]
  have r2: "reachable (s', v')"
    using reachable.step [OF reachable.step [OF assms(1) _ st1] _ st2] by simp
  have "BoundariesGroup \<in> map_layers v' \<longleftrightarrow> showBoundaries s'"
    using reachable_inv [OF r2] by (simp add: app_inv_def layers_ok_def)
  moreover have "boundariesLayer v1 = boundariesLayer v \<and>
                 boundaries (stats s1) = boundaries (stats s)"
    using commit_boundaries_frame [OF c1] by simp
  moreover have "boundariesLayer v' = boundariesLayer v1 \<and>
                 boundaries (stats s') = boundaries (stats s1)"
    using commit_boundaries_frame [OF c2] by simp
  ultimately show ?thesis
    using p1 p2 by simp
qed

text \<open>
  C30: ticking the boundaries checkbox for the first time after the load shows an empty
  group, whatever the data: no effect draws boundaries when they are shown, only when the
  admin level changes.  The specification says that showing them renders them for the
  current level when they are not yet rendered.
\<close>

theorem show_after_load_draws_nothing:
  assumes "reachable (s, v)" "loading s" "\<not> showBoundaries s"
    and "bind_r (step (s, v) (LoadSettled fs)) (\<lambda>sv. step sv (UI (SetShowBoundaries True))) =
           Inr (s', v')"
  shows "showBoundaries s' \<and> BoundariesGroup \<in> map_layers v' \<and> boundariesLayer v' = Some []"
proof -
  obtain s1 v1 where l1: "loadData ''admin1'' fs s v = (s1, v1)"
    by (cases "loadData ''admin1'' fs s v")
  have st1: "step (s, v) (LoadSettled fs) = Inr (s1, v1)"
    using l1 by simp
  have st2: "step (s1, v1) (UI (SetShowBoundaries True)) = Inr (s', v')"
    using assms(4) st1 by simp
  have c2: "commit s1 (s1\<lparr>showBoundaries := True\<rparr>) v1 = Inr (s', v')"
    using st2 by simp
  have r2: "reachable (s', v')"
    using reachable.step [OF reachable.step [OF assms(1) _ st1] _ st2] assms(2) by simp
  have "boundariesLayer v1 = Some []"
    using loadData_frame [OF l1] loading_view [OF assms(1,2)] by simp
  moreover have "boundariesLayer v' = boundariesLayer v1"
    using commit_boundaries_frame [OF c2] by simp
  moreover have "showBoundaries s'"
    using commit_props [OF c2] by simp
  moreover have "BoundariesGroup \<in> map_layers v' \<longleftrightarrow> showBoundaries s'"
    using reachable_inv [OF r2] by (simp add: app_inv_def layers_ok_def)
  ultimately show ?thesis
    by simp
qed

text \<open>
  C31: the boundary count set by a successful load is the size of the \<open>admin1\<close>
  collection whatever admin level is selected when the fetches settle: \<open>loadData\<close> reads
  the level of the first render.
\<close>

theorem load_counts_admin1:
  assumes "parsed fp = Some (JCollection ps)" "parsed fb = Some b" "parsed f0 = Some a0"
    "parsed f1 = Some (JCollection a1s)" "parsed f2 = Some a2"
    and "step (s, v) (LoadSettled (fp, fb, f0, f1, f2)) = Inr (s', v')"
  shows "adminLevel s' = adminLevel s \<and> boundaries (stats s') = length a1s"
proof -
  have "settle [fp, fb, f0, f1, f2] = Some [JCollection ps, b, a0, JCollection a1s, a2]"
    using assms(1-5) by (simp add: settle_those)
  then have "loadData ''admin1'' (fp, fb, f0, f1, f2) s v =
      (s\<lparr>stats := (stats s)\<lparr>total := length ps, boundaries := length a1s\<rparr>,
         error := None, loading := False\<rparr>,
       v\<lparr>placesData := Some (JCollection ps), boundariesData := Some b,
         adminData := [(''admin0'', a0), (''admin1'', JCollection a1s), (''admin2'', a2),
                       (''populated_places'', b)]\<rparr>)"
    by (rule loadData_settle_Some)
  with assms(6) show ?thesis
    by auto
qed

text \<open>
  C32: the load draws nothing: from any reachable loading state, the settlement of the
  fetches leaves the places group empty and the visible count zero, whatever category or
  search term was chosen while loading; the controls are not disabled during the load and
  nothing redraws the places after it.
\<close>

theorem load_draws_nothing:
  assumes "reachable (s, v)" "loading s" "step (s, v) (LoadSettled fs) = Inr (s', v')"
  shows "placeFilter s' = placeFilter s \<and> searchTerm s' = searchTerm s \<and>
         placesLayer v' = Some [] \<and> visible (stats s') = 0"
proof -
  have "loadData ''admin1'' fs s v = (s', v')"
    using assms(3) by simp
  from loadData_frame [OF this] loading_view [OF assms(1,2)] show ?thesis
    by simp
qed

text \<open>
  C33: the load is not all-or-nothing when the point body parses to a value without
  \<open>features\<close>: the error is set, yet the five datasets are stored, where the
  specification's load publishes nothing on a failure.
\<close>

theorem bad_points_partial_load:
  assumes "parsed fp = Some JOther" "parsed fb = Some b" "parsed f0 = Some a0"
    "parsed f1 = Some a1" "parsed f2 = Some a2"
  shows "loadData lvl (fp, fb, f0, f1, f2) s v =
           (fail_load ''Cannot read properties of undefined (reading 'length')'' s,
            v\<lparr>placesData := Some JOther, boundariesData := Some b,
              adminData := [(''admin0'', a0), (''admin1'', a1), (''admin2'', a2),
                            (''populated_places'', b)]\<rparr>)"
proof -
  have "settle [fp, fb, f0, f1, f2] = Some [JOther, b, a0, a1, a2]"
    using assms by (simp add: settle_those)
  then show ?thesis
    by (simp add: loadData_settle)
qed


end
