(* ===== verification/Legend.thy ===== *)
theory Legend
  imports Style
begin

text \<open>
  The legend (\<open>src/web-app/src/components/Legend.jsx\<close>): a static list of swatches,
  each a border colour, a border width and a border class (\<open>solid-border\<close>,
  \<open>dashed-border\<close>, \<open>dotted-border\<close>), labelled with the place category or the
  admin level it stands for.  The legend is written separately from the styles that
  \<open>MapView\<close> draws with, so it is worth proving that the two agree.
\<close>

datatype border_class = Solid | Dashed | Dotted

record swatch =
  border_color :: string
  border_width :: rat
  border_class :: border_class

definition place_legend :: "(string \<times> swatch) list" where
  "place_legend =
     [(''city'', \<lparr>border_color = ''#e74c3c'', border_width = 3, border_class = Solid\<rparr>),
      (''town'', \<lparr>border_color = ''#f39c12'', border_width = 5 / 2, border_class = Solid\<rparr>),
      (''village'', \<lparr>border_color = ''#27ae60'', border_width = 2, border_class = Solid\<rparr>)]"

definition boundary_legend :: "(string \<times> swatch) list" where
  "boundary_legend =
     [(''admin0'', \<lparr>border_color = ''#e74c3c'', border_width = 4, border_class = Solid\<rparr>),
      (''admin1'', \<lparr>border_color = ''#3498db'', border_width = 3, border_class = Solid\<rparr>),
      (''admin2'', \<lparr>border_color = ''#f39c12'', border_width = 2, border_class = Dashed\<rparr>),
      (''populated_places'',
         \<lparr>border_color = ''#27ae60'', border_width = 2, border_class = Dotted\<rparr>)]"

text \<open>The border class a Leaflet \<open>dashArray\<close> draws like.\<close>

fun dash_class :: "string option \<Rightarrow> border_class" where
  "dash_class None = Solid"
| "dash_class (Some d) = (if d = ''5, 5'' then Dashed else Dotted)"

subsection \<open>Properties\<close>

text \<open>
  C18: the legend agrees with the renderer: every place swatch has the colour and width of
  the style of a feature of that category, and every boundary swatch the colour, width and
  dash pattern of its admin level's style.
\<close>

theorem legend_matches_styles:
  "(\<forall>(c, sw) \<in> set place_legend. \<forall>f. place (properties f) = Some c \<longrightarrow>
       border_color sw = color (place_style f) \<and> border_width sw = weight (place_style f)) \<and>
   (\<forall>(l, sw) \<in> set boundary_legend.
       border_color sw = color (admin_style l) \<and> border_width sw = weight (admin_style l) \<and>
       border_class sw = dash_class (dashArray (admin_style l)))"
  by (simp add: place_legend_def boundary_legend_def place_style_sel place_color_weight_def
      admin_style_def)

end
