(* ===== verification/Spec2Isabelle.thy ===== *)
theory Spec2Isabelle
  imports Refinement Controller Findings Legend
begin

text \<open>
  \<^bold>\<open>A verified model of the Sudan regions and cities map viewer.\<close>

  The program (\<open>src/web-app/\<close>) is a Preact single-page application around a Leaflet
  map.  \<open>App\<close> (\<open>src/app.jsx\<close>) owns the view state (place category, boundary
  checkbox, admin level, search term, basemap style) and the statistics, loading flag and
  error; \<open>Controls\<close> (\<open>components/Controls.jsx\<close>) changes the view state;
  \<open>MapView\<close> (\<open>components/MapView.jsx\<close>) owns the Leaflet map, loads the five GeoJSON
  files once, and keeps the map in step with the view state through four effects;
  \<open>Stats\<close> and \<open>Legend\<close> display the statistics and the style legend; \<open>Header\<close> is
  static markup.

  \<^bold>\<open>Theories and what they model.\<close>
  \<^item> \<open>Prelude\<close>: the JavaScript runtime the code relies on: exceptions as
    \<open>js_error\<close>, a fallible step as \<open>'a result = js_error + 'a\<close> sequenced by
    \<open>bind_r\<close>, truthiness of optional values (\<open>truthy_str\<close>), \<open>||\<close> (\<open>or_str\<close>,
    \<open>or_chain\<close>), \<open>toLowerCase\<close> (\<open>to_lower\<close>, ASCII letters) and \<open>includes\<close>
    (\<open>str_includes\<close>, proved equal to \<open>sublist\<close>).
  \<^item> \<open>GeoJson\<close>: features (\<open>record feature\<close>, \<open>record props\<close>) and parsed JSON
    bodies (\<open>json\<close>: a collection, a falsy value, or a truthy value without features).
  \<^item> \<open>PlaceFilter\<close>: the Filter Engine, the two \<open>.filter\<close> passes of
    \<open>displayPlaces\<close> (\<open>filter_features\<close>), with the one-pass reference \<open>keep\<close>.
  \<^item> \<open>Style\<close>: the Style Resolver, the \<open>style\<close> callback of \<open>displayPlaces\<close>
    (\<open>place_style\<close>) and \<open>getStyle\<close> of \<open>displayBoundaries\<close> (\<open>admin_style\<close>).
  \<^item> \<open>Format\<close> and \<open>Popup\<close>: \<open>toLocaleString\<close> (en-US), \<open>Math.round\<close>, and the
    content of the two \<open>onEachFeature\<close> popups.
  \<^item> \<open>ViewState\<close> and \<open>Controls\<close>: \<open>App\<close>'s state (\<open>app_state\<close>), its initial
    value and \<open>resetView\<close>, and the control events with the values each control can
    produce (\<open>control_enabled\<close>).
  \<^item> \<open>Render\<close>: the Layer Renderer and Basemap Switcher: \<open>MapView\<close>'s refs as the
    record \<open>map_view\<close> (the Leaflet map as a set of attached layers, each layer group as
    the list of GeoJSON layers added since its last \<open>clearLayers\<close>), \<open>displayPlaces\<close>,
    \<open>displayBoundaries\<close>, \<open>getCurrentBoundaryData\<close> and the four effects, run in
    declaration order by \<open>run_effects\<close> when their dependencies change.
  \<^item> \<open>Loader\<close>: the Data Loader, the part of \<open>loadData\<close> that runs when the five
    fetches settle (\<open>loadData\<close>), with \<open>Promise.all\<close> and the five \<open>json()\<close> calls.
  \<^item> \<open>App\<close>: the View State Controller as a transition system: \<open>step\<close> on events
    (a control change, or the settlement of the fetches), \<open>reachable\<close> states from the
    mounted component, and the invariant \<open>app_inv\<close> proved for every reachable state by
    rule induction.
  \<^item> \<open>Stats\<close> and \<open>Legend\<close>: what the statistics panel shows, and the legend's
    swatches, proved to agree with the styles the map draws with.
  \<^item> \<open>Refinement\<close>: the abstract contracts of the specification for the loader
    (\<open>load_spec\<close>, an all-or-nothing join, seen through \<open>abs_load\<close>) and for the
    places renderer (\<open>places_spec\<close>, read back by \<open>shown_places\<close>), and the
    refinement theorems that the code implements them.
  \<^item> \<open>Controller\<close>: the enumerated fields of the state, and the redraw on a change
    of admin level.
  \<^item> \<open>Findings\<close>: general theorems, over every reachable state and every input of
    the stated shape, on the behaviours where the code departs from the specification or
    where the specification is silent: a failed load, a reset while the boundaries are
    shown, showing the boundaries after a load that drew none, the boundary count of the
    load, the places drawn by the load, and loads whose bodies are not collections.

  \<^bold>\<open>What the lemmas show.\<close>  Each component theory ends with its properties: the
  filter equals its specification, is case-insensitive in the search term and exact in
  the category; the places redraw is idempotent and an empty category clears it;
  the loader is all-or-nothing on fetch, status and parse failures and stores exactly the
  five collections on success; both redraws are idempotent; a place popup shows the name,
  the type and the formatted population, a boundary popup's title follows its fallback
  chain.  \<open>App\<close> proves the invariant of the reachable states
  and its consequences: one places layer drawn from the current filters, the boundary group
  attached exactly when shown, one tile layer of the selected style, outlines only, the
  reset and toggle behaviour, the basemap switch touching only the tiles, and the absence of
  exceptions on well-formed data.  \<open>Refinement\<close> proves the loader and the places
  renderer against the contracts of the specification (the loader only on bodies that are
  feature collections), \<open>Controller\<close> that the enumerated fields keep their types
  and that a change of admin level redraws the boundaries, \<open>Findings\<close> the departures
  listed above.  This theory holds sample data (features, collections, fetch results and
  a run of events, evaluated by \<open>code_simp\<close>) and, for every property with hypotheses,
  a witness theorem applying it to that data; it also proves that the loading flag goes
  down once and stays down.

  \<^bold>\<open>Modelling choices.\<close>  Preact batches the setters of one handler into one render
  and runs an effect after a render in which one of its dependencies changed; an effect
  reads the props of that render.  \<open>setStats(prev => ...)\<close> applies its updater at once.
  The fetches are one event, \<open>LoadSettled\<close>, enabled while loading; \<open>loadData\<close> reads
  the admin level of the first render (its closure).  The program's own loops are finite
  list traversals (\<open>fun\<close>, total), so no fuel is needed; each handler runs its
  effects once, in declaration order (\<open>run_effects\<close>), because no effect changes a
  dependency of another.

  \<^bold>\<open>Not modelled.\<close>  Geometry coordinates, Leaflet's drawing and the popups' HTML
  markup (a popup is its title and lines); the unmounting of \<open>MapView\<close> as an event
  of the system, since the application never unmounts it (its cleanup,
  \<open>MapView.jsx\<close> lines 67--72, is the operation \<open>Render.cleanup_effect\<close>, and
  \<open>init_after_cleanup\<close> shows that a remount builds a fresh map and reloads);
  \<open>Header.jsx\<close> (static markup without props or state) and
  \<open>vite.config.js\<close> (build tooling); the GeoJSON files themselves, which are outside
  \<open>src/\<close> and are modelled from the specification with only the properties the code
  reads.  Object keys that would hit \<open>Object.prototype\<close> in \<open>mapStyles[...]\<close> and
  \<open>adminData.current[...]\<close> are not modelled: \<open>reachable_enums\<close> shows that the
  keys of reachable states are the options of the selects.
\<close>

section \<open>Sample data\<close>

definition poly :: "string \<Rightarrow> string \<Rightarrow> feature" where
  "poly n p =
     \<lparr>geometry = Polygon [], properties = \<lparr>name = Some n, place = Some p, population = None,
        adm0_name = None, adm1_name = None, adm2_name = None, area_sqkm = None\<rparr>\<rparr>"

definition point :: "string \<Rightarrow> string \<Rightarrow> feature" where
  "point n p =
     \<lparr>geometry = Point (0, 0), properties = \<lparr>name = Some n, place = Some p, population = None,
        adm0_name = None, adm1_name = None, adm2_name = None, area_sqkm = None\<rparr>\<rparr>"

definition khartoum :: feature where "khartoum = poly ''Khartoum'' ''city''"
definition omdurman :: feature where "omdurman = poly ''Omdurman'' ''city''"
definition atbara :: feature where "atbara = poly ''Atbara'' ''town''"

definition khartoum_point :: feature where
  "khartoum_point =
     \<lparr>geometry = Point (0, 0), properties = \<lparr>name = Some ''Khartoum'', place = Some ''city'',
        population = Some 639598, adm0_name = None, adm1_name = None, adm2_name = None,
        area_sqkm = None\<rparr>\<rparr>"

definition sample_polygons :: "feature list" where
  "sample_polygons = [khartoum, omdurman, atbara]"

definition sample_points :: "feature list" where
  "sample_points =
     [point ''Khartoum'' ''city'', point ''Omdurman'' ''city'', point ''Atbara'' ''town'',
      point ''Shendi'' ''town'']"

definition sample_admin0 :: "feature list" where
  "sample_admin0 = [poly ''Sudan'' ''country'']"

definition sample_admin1 :: "feature list" where
  "sample_admin1 = [poly ''Khartoum'' ''state'', poly ''River Nile'' ''state'']"

definition sample_admin2 :: "feature list" where
  "sample_admin2 = [poly ''Bahri'' ''locality'']"

definition ok_fetch :: "json \<Rightarrow> fetch_outcome" where
  "ok_fetch j = Inr \<lparr>ok = True, body = Inr j\<rparr>"

definition not_found :: fetch_outcome where
  "not_found = Inr \<lparr>ok = False, body = Inl ''Unexpected token '<' ''\<rparr>"

definition sample_fetches :: fetches where
  "sample_fetches =
     (ok_fetch (JCollection sample_points), ok_fetch (JCollection sample_polygons),
      ok_fetch (JCollection sample_admin0), ok_fetch (JCollection sample_admin1),
      ok_fetch (JCollection sample_admin2))"

definition admin2_fails :: fetches where
  "admin2_fails =
     (ok_fetch (JCollection sample_points), ok_fetch (JCollection sample_polygons),
      ok_fetch (JCollection sample_admin0), ok_fetch (JCollection sample_admin1), not_found)"

definition points_not_collection :: fetches where
  "points_not_collection =
     (ok_fetch JOther, ok_fetch (JCollection sample_polygons),
      ok_fetch (JCollection sample_admin0), ok_fetch (JCollection sample_admin1),
      ok_fetch (JCollection sample_admin2))"


text \<open>\<open>after es P\<close>: the run of \<open>es\<close> from the mounted application ends in a state with \<open>P\<close>.\<close>

definition after :: "event list \<Rightarrow> (app_state \<Rightarrow> map_view \<Rightarrow> bool) \<Rightarrow> bool" where
  "after es P =
     (case run (initial_app, initial_view) es of Inr (s, v) \<Rightarrow> P s v | Inl _ \<Rightarrow> False)"

definition demo_events :: "event list" where
  "demo_events =
     [LoadSettled sample_fetches, UI (SetPlaceFilter ''city''), UI (SetShowBoundaries True),
      UI (SetAdminLevel ''admin0'')]"

section \<open>Running the system\<close>

lemma after_reachable:
  "after es P \<Longrightarrow>
     \<exists>s v. run (initial_app, initial_view) es = Inr (s, v) \<and> reachable (s, v) \<and> P s v"
  by (auto simp: after_def split: sum.splits intro: run_reachable [OF reachable_start])

lemma demo_after:
  "after demo_events (\<lambda>s v.
     showBoundaries s \<and> placeFilter s = ''city'' \<and> searchTerm s = [] \<and> adminLevel s = ''admin0'' \<and>
     map_of (adminData v) ''admin1'' = Some (JCollection sample_admin1) \<and> visible (stats s) = 2 \<and>
     placesLayer v = Some [draw_places [khartoum, omdurman]] \<and>
     boundariesLayer v = Some [draw_boundaries ''admin0'' sample_admin0] \<and>
     ref_or (boundariesData v) (placesData v) = Some (JCollection sample_polygons))"
  by code_simp

lemma demo_state:
  "\<exists>s v. run (initial_app, initial_view) demo_events = Inr (s, v) \<and> reachable (s, v) \<and>
     showBoundaries s \<and> placeFilter s = ''city'' \<and> searchTerm s = [] \<and> adminLevel s = ''admin0'' \<and>
     map_of (adminData v) ''admin1'' = Some (JCollection sample_admin1) \<and> visible (stats s) = 2 \<and>
     placesLayer v = Some [draw_places [khartoum, omdurman]] \<and>
     boundariesLayer v = Some [draw_boundaries ''admin0'' sample_admin0] \<and>
     ref_or (boundariesData v) (placesData v) = Some (JCollection sample_polygons)"
  using after_reachable [OF demo_after] by simp

section \<open>Loading ends once\<close>

text \<open>
  C20: when the fetches settle, loading ends, whatever the outcome: success, a network
  error, a bad status, a parse error or a body without features.
\<close>

theorem load_ends:
  "loading s \<Longrightarrow> step (s, v) (LoadSettled fs) = Inr (s', v') \<Longrightarrow> \<not> loading s'"
  using loadData_frame [of "adminLevel initial_app" fs s v s' v'] by simp

text \<open>
  C21: once loading has ended it never starts again: no run of control events from a
  state that is not loading reaches a loading state, and the fetches cannot settle twice.
\<close>

theorem loading_stays_off:
  "\<not> loading s \<Longrightarrow> run (s, v) es = Inr (s', v') \<Longrightarrow> \<not> loading s'"
proof (induction es arbitrary: s v)
  case Nil
  then show ?case by simp
next
  case (Cons e es)
  show ?case
  proof (cases e)
    case (UI u)
    from Cons.prems UI obtain s1 v1 where c: "commit s (apply_ui u s) v = Inr (s1, v1)"
        and r: "run (s1, v1) es = Inr (s', v')"
      by (auto simp: bind_r_Inr_iff split: if_splits)
    have "\<not> loading s1"
      using commit_props [OF c] Cons.prems(1) by simp
    then show ?thesis by (rule Cons.IH [OF _ r])
  next
    case (LoadSettled fs)
    with Cons.prems show ?thesis by simp
  qed
qed

section \<open>The properties applied to sample inputs\<close>

theorem reachable_places_layer_witness:
  "\<exists>s v. run (initial_app, initial_view) demo_events = Inr (s, v) \<and> reachable (s, v) \<and>
     (\<exists>ls. placesLayer v = Some ls \<and> length ls \<le> 1 \<and>
          visible (stats s) = sum_list (map length ls) \<and>
          (\<forall>l \<in> set ls. \<exists>fs. ref_or (boundariesData v) (placesData v) = Some (JCollection fs) \<and>
                             l = draw_places (filter_features (placeFilter s) (searchTerm s) fs)))"
proof -
  obtain s v where r: "run (initial_app, initial_view) demo_events = Inr (s, v)" "reachable (s, v)"
    using demo_state by blast
  show ?thesis using r reachable_places_layer [OF r(2)] by blast
qed

theorem loadData_all_or_nothing_witness:
  "None \<in> set (map parsed [ok_fetch (JCollection sample_points), ok_fetch (JCollection sample_polygons),
      ok_fetch (JCollection sample_admin0), ok_fetch (JCollection sample_admin1), not_found]) \<and>
   snd (loadData ''admin1'' admin2_fails initial_app initial_view) = initial_view \<and>
   error (fst (loadData ''admin1'' admin2_fails initial_app initial_view)) \<noteq> None \<and>
   \<not> loading (fst (loadData ''admin1'' admin2_fails initial_app initial_view))"
proof -
  have h: "None \<in> set (map parsed [ok_fetch (JCollection sample_points),
      ok_fetch (JCollection sample_polygons), ok_fetch (JCollection sample_admin0),
      ok_fetch (JCollection sample_admin1), not_found])"
    by (simp add: not_found_def)
  show ?thesis
    using loadData_all_or_nothing [OF surjective_pairing h] h
    by (simp add: admin2_fails_def)
qed

theorem reachable_boundaries_shown_witness:
  "\<exists>s v. run (initial_app, initial_view) demo_events = Inr (s, v) \<and> reachable (s, v) \<and>
     showBoundaries s \<and> BoundariesGroup \<in> map_layers v"
proof -
  obtain s v where r: "run (initial_app, initial_view) demo_events = Inr (s, v)" "reachable (s, v)"
      "showBoundaries s"
    using demo_state by blast
  show ?thesis using r reachable_boundaries_shown [OF r(2)] by blast
qed

theorem toggle_off_on_witness:
  "\<exists>s v. run (initial_app, initial_view) demo_events = Inr (s, v) \<and> reachable (s, v) \<and>
     showBoundaries s \<and>
     bind_r (step (s, v) (UI (SetShowBoundaries False)))
       (\<lambda>sv. step sv (UI (SetShowBoundaries True))) = Inr (s, v)"
proof -
  obtain s v where r: "run (initial_app, initial_view) demo_events = Inr (s, v)" "reachable (s, v)"
      "showBoundaries s"
    using demo_state by blast
  show ?thesis using r toggle_off_on [OF r(2,3)] by blast
qed

theorem reset_view_defaults_witness:
  "\<exists>s v. run (initial_app, initial_view) demo_events = Inr (s, v) \<and> reachable (s, v) \<and>
     (\<exists>s' v'. step (s, v) (UI ResetView) = Inr (s', v') \<and>
        placeFilter s' = ''none'' \<and> searchTerm s' = [] \<and> \<not> showBoundaries s' \<and>
        adminLevel s' = ''admin1'' \<and> mapStyle s' = ''openstreetmap'' \<and>
        BoundariesGroup \<notin> map_layers v' \<and> placesLayer v' = Some [] \<and> visible (stats s') = 0)"
proof -
  obtain s v where r: "run (initial_app, initial_view) demo_events = Inr (s, v)" "reachable (s, v)"
    using demo_state by blast
  show ?thesis using r reset_view_defaults [OF r(2)] by blast
qed

theorem reachable_one_tile_witness:
  "\<exists>s v. run (initial_app, initial_view) demo_events = Inr (s, v) \<and> reachable (s, v) \<and>
     (\<exists>i. {l \<in> map_layers v. is_tile l} = {TileLayer i (style_for (mapStyle s))})"
proof -
  obtain s v where r: "run (initial_app, initial_view) demo_events = Inr (s, v)" "reachable (s, v)"
    using demo_state by blast
  show ?thesis using r reachable_one_tile [OF r(2)] by blast
qed

theorem set_basemap_witness:
  "\<exists>s v s' v'. run (initial_app, initial_view) demo_events = Inr (s, v) \<and> reachable (s, v) \<and>
     ''dark'' \<in> set mapStyle_options \<and> step (s, v) (UI (SetMapStyle ''dark'')) = Inr (s', v') \<and>
     placesLayer v' = placesLayer v \<and> boundariesLayer v' = boundariesLayer v \<and>
     center v' = center v \<and> zoom v' = zoom v \<and> stats s' = stats s \<and>
     (\<exists>i. {l \<in> map_layers v'. is_tile l} = {TileLayer i (style_for ''dark'')})"
proof -
  obtain s v where r: "run (initial_app, initial_view) demo_events = Inr (s, v)" "reachable (s, v)"
      "ref_or (boundariesData v) (placesData v) = Some (JCollection sample_polygons)"
    using demo_state by blast
  obtain s' v' where st: "step (s, v) (UI (SetMapStyle ''dark'')) = Inr (s', v')"
    using commit_Inr [of v "apply_ui (SetMapStyle ''dark'') s" s] r(3) by auto
  have k: "''dark'' \<in> set mapStyle_options" by (simp add: mapStyle_options_def)
  show ?thesis using r(1,2) st k set_basemap [OF r(2) k st] by blast
qed

theorem step_no_throw_witness:
  "\<exists>s v. run (initial_app, initial_view) demo_events = Inr (s, v) \<and>
     ref_or (boundariesData v) (placesData v) \<noteq> Some JOther \<and>
     (\<exists>r. step (s, v) (UI (SetSearchTerm ''Omd'')) = Inr r)"
proof -
  obtain s v where r: "run (initial_app, initial_view) demo_events = Inr (s, v)"
      "ref_or (boundariesData v) (placesData v) = Some (JCollection sample_polygons)"
    using demo_state by blast
  have h: "ref_or (boundariesData v) (placesData v) \<noteq> Some JOther" using r(2) by simp
  show ?thesis using r(1) h step_no_throw [OF h] by blast
qed

theorem loadData_success_witness:
  "loadData ''admin1'' (ok_fetch (JCollection sample_points), ok_fetch (JCollection sample_polygons),
      ok_fetch (JCollection sample_admin0), ok_fetch (JCollection sample_admin1),
      ok_fetch (JCollection sample_admin2)) initial_app initial_view =
   (initial_app\<lparr>stats := (stats initial_app)\<lparr>total := length sample_points,
                   boundaries := length sample_admin1\<rparr>, error := None, loading := False\<rparr>,
    initial_view\<lparr>placesData := Some (JCollection sample_points),
      boundariesData := Some (JCollection sample_polygons),
      adminData := [(''admin0'', JCollection sample_admin0), (''admin1'', JCollection sample_admin1),
                    (''admin2'', JCollection sample_admin2),
                    (''populated_places'', JCollection sample_polygons)]\<rparr>)"
  by (rule loadData_success) (simp_all add: ok_fetch_def)

theorem displayPlaces_none_witness:
  "placesLayer initial_view \<noteq> None \<and> placeFilter initial_app = ''none'' \<and>
   displayPlaces initial_app initial_view =
     Inr (set_visible 0 initial_app, initial_view\<lparr>placesLayer := Some []\<rparr>)"
proof -
  have h: "placesLayer initial_view \<noteq> None" "placeFilter initial_app = ''none''"
    by (simp_all add: initial_view_def initial_app_def)
  show ?thesis using h displayPlaces_none [OF h] by simp
qed

theorem reachable_no_fill_witness:
  "\<exists>s v. run (initial_app, initial_view) demo_events = Inr (s, v) \<and> reachable (s, v) \<and>
     placesLayer v = Some [draw_places [khartoum, omdurman]] \<and>
     hd (draw_places [khartoum, omdurman]) \<in> set (concat [draw_places [khartoum, omdurman]]) \<and>
     d_style (hd (draw_places [khartoum, omdurman])) = Some (place_style khartoum) \<and>
     \<not> fill (place_style khartoum) \<and> fillOpacity (place_style khartoum) = 0"
proof -
  obtain s v where r: "run (initial_app, initial_view) demo_events = Inr (s, v)" "reachable (s, v)"
      "placesLayer v = Some [draw_places [khartoum, omdurman]]"
    using demo_state by blast
  have d: "hd (draw_places [khartoum, omdurman]) \<in> set (concat [draw_places [khartoum, omdurman]])"
    "d_style (hd (draw_places [khartoum, omdurman])) = Some (place_style khartoum)"
    by (simp_all add: draw_places_def leaflet_geojson_def khartoum_def poly_def)
  show ?thesis
    using r d reachable_no_fill [OF r(2) disjI1 [OF r(3)] d] by blast
qed

theorem filter_features_case_insensitive_witness:
  "to_lower ''ATB'' = to_lower ''atb'' \<and>
   filter_features ''all'' ''ATB'' sample_polygons = filter_features ''all'' ''atb'' sample_polygons"
proof -
  have h: "to_lower ''ATB'' = to_lower ''atb''" by code_simp
  show ?thesis using h filter_features_case_insensitive [OF h] by blast
qed

theorem filter_features_place_witness:
  "''city'' \<noteq> ''all'' \<and> omdurman \<in> set (filter_features ''city'' [] sample_polygons) \<and>
   place (properties omdurman) = Some ''city''"
proof -
  have h: "''city'' \<noteq> ''all''" "omdurman \<in> set (filter_features ''city'' [] sample_polygons)"
    by code_simp+
  show ?thesis using h filter_features_place [OF h] by blast
qed

theorem legend_matches_styles_witness:
  "border_color (snd (hd place_legend)) = color (place_style khartoum) \<and>
   border_width (snd (hd place_legend)) = weight (place_style khartoum) \<and>
   border_class (snd (boundary_legend ! 2)) = dash_class (dashArray (admin_style ''admin2''))"
proof -
  have "(''city'', snd (hd place_legend)) \<in> set place_legend"
    "(''admin2'', snd (boundary_legend ! 2)) \<in> set boundary_legend"
    by (simp_all add: place_legend_def boundary_legend_def)
  moreover have "place (properties khartoum) = Some ''city''"
    by (simp add: khartoum_def poly_def)
  ultimately show ?thesis
    using legend_matches_styles by fast
qed

theorem render_stats_error_witness:
  "truthy_str (Some ''Failed to load data files'') \<and>
   total_text (render_stats \<lparr>total = 4, visible = 2, boundaries = 2\<rparr> False
     (Some ''Failed to load data files'')) = ErrorText \<and>
   visible_text (render_stats \<lparr>total = 4, visible = 2, boundaries = 2\<rparr> False
     (Some ''Failed to load data files'')) = Count (to_locale_string 2)"
proof -
  have h: "truthy_str (Some ''Failed to load data files'')" by simp
  show ?thesis using h render_stats_error [OF h, of "\<lparr>total = 4, visible = 2, boundaries = 2\<rparr>"]
    by simp
qed

theorem load_ends_witness:
  "loading initial_app \<and>
   step (initial_app, initial_view) (LoadSettled sample_fetches) =
     Inr (fst (loadData ''admin1'' sample_fetches initial_app initial_view),
          snd (loadData ''admin1'' sample_fetches initial_app initial_view)) \<and>
   \<not> loading (fst (loadData ''admin1'' sample_fetches initial_app initial_view))"
proof -
  have h: "loading initial_app" by (simp add: initial_app_def)
  have st: "step (initial_app, initial_view) (LoadSettled sample_fetches) =
     Inr (fst (loadData ''admin1'' sample_fetches initial_app initial_view),
          snd (loadData ''admin1'' sample_fetches initial_app initial_view))"
    by (simp add: initial_app_def)
  show ?thesis using h st load_ends [OF h st] by blast
qed

theorem loading_stays_off_witness:
  "\<exists>s v s' v'. run (initial_app, initial_view) demo_events = Inr (s, v) \<and> \<not> loading s \<and>
     run (s, v) [UI ResetView, UI (SetPlaceFilter ''all'')] = Inr (s', v') \<and> \<not> loading s'"
proof -
  have a: "after demo_events (\<lambda>s v. \<not> loading s \<and>
             (case run (s, v) [UI ResetView, UI (SetPlaceFilter ''all'')] of
                Inr _ \<Rightarrow> True | Inl _ \<Rightarrow> False))"
    by code_simp
  then obtain s v where r: "run (initial_app, initial_view) demo_events = Inr (s, v)" "\<not> loading s"
      "case run (s, v) [UI ResetView, UI (SetPlaceFilter ''all'')] of Inr _ \<Rightarrow> True | Inl _ \<Rightarrow> False"
    using after_reachable [OF a] by blast
  obtain s' v' where r': "run (s, v) [UI ResetView, UI (SetPlaceFilter ''all'')] = Inr (s', v')"
    using r(3) by (cases "run (s, v) [UI ResetView, UI (SetPlaceFilter ''all'')]") auto
  show ?thesis using r(1,2) r' loading_stays_off [OF r(2) r'] by blast
qed

theorem place_popup_spec_witness:
  "truthy_str (name (properties khartoum_point)) \<and>
   (\<exists>p. place_popup khartoum_point = Some p \<and> title p = the (name (properties khartoum_point)) \<and>
       hd (lines p) = TypeLine (or_str (place (properties khartoum_point)) ''Unknown'')
                               (place_type_arabic (place (properties khartoum_point))) \<and>
       (\<forall>t. PopulationLine t \<in> set (lines p) \<longleftrightarrow>
            truthy_num (population (properties khartoum_point)) \<and>
            t = to_locale_string (the (population (properties khartoum_point)))))"
proof -
  have h: "truthy_str (name (properties khartoum_point))"
    by (simp add: khartoum_point_def)
  show ?thesis using h place_popup_spec [OF h] by blast
qed

theorem loadData_refines_witness:
  "bodies_wf (map parsed [ok_fetch (JCollection sample_points), ok_fetch (JCollection sample_polygons),
      ok_fetch (JCollection sample_admin0), ok_fetch (JCollection sample_admin1),
      ok_fetch (JCollection sample_admin2)]) \<and>
   case_prod abs_load (loadData ''admin1'' (ok_fetch (JCollection sample_points),
      ok_fetch (JCollection sample_polygons), ok_fetch (JCollection sample_admin0),
      ok_fetch (JCollection sample_admin1), ok_fetch (JCollection sample_admin2))
      initial_app initial_view) =
   load_spec (map parsed [ok_fetch (JCollection sample_points), ok_fetch (JCollection sample_polygons),
      ok_fetch (JCollection sample_admin0), ok_fetch (JCollection sample_admin1),
      ok_fetch (JCollection sample_admin2)]) (abs_load initial_app initial_view)"
proof -
  have h: "bodies_wf (map parsed [ok_fetch (JCollection sample_points),
      ok_fetch (JCollection sample_polygons), ok_fetch (JCollection sample_admin0),
      ok_fetch (JCollection sample_admin1), ok_fetch (JCollection sample_admin2)])"
    by (simp add: bodies_wf_def ok_fetch_def)
  show ?thesis using h loadData_refines [OF h] by blast
qed

theorem filter_change_refines_witness:
  "\<exists>s v s' v'. run (initial_app, initial_view) demo_events = Inr (s, v) \<and> reachable (s, v) \<and>
     ref_or (boundariesData v) (placesData v) = Some (JCollection sample_polygons) \<and>
     step (s, v) (UI (SetSearchTerm ''Omd'')) = Inr (s', v') \<and>
     (placeFilter s' \<noteq> placeFilter s \<or> searchTerm s' \<noteq> searchTerm s) \<and>
     shown_places v' = places_spec sample_polygons (placeFilter s') (searchTerm s') \<and>
     visible (stats s') = length (shown_places v')"
proof -
  obtain s v where r: "run (initial_app, initial_view) demo_events = Inr (s, v)" "reachable (s, v)"
      "ref_or (boundariesData v) (placesData v) = Some (JCollection sample_polygons)" "searchTerm s = []"
    using demo_state by blast
  obtain s' v' where st: "step (s, v) (UI (SetSearchTerm ''Omd'')) = Inr (s', v')"
    using commit_Inr [of v "apply_ui (SetSearchTerm ''Omd'') s" s] r(3) by auto
  have "searchTerm s' = ''Omd''"
    using commit_props [of s "apply_ui (SetSearchTerm ''Omd'') s" v s' v'] st by simp
  then have h: "placeFilter s' \<noteq> placeFilter s \<or> searchTerm s' \<noteq> searchTerm s"
    using r(4) by simp
  show ?thesis
    using r st h filter_change_refines [OF r(2) r(3) st h] by blast
qed

theorem reachable_enums_witness:
  "\<exists>s v. run (initial_app, initial_view) demo_events = Inr (s, v) \<and> reachable (s, v) \<and>
     placeFilter s \<in> set placeFilter_options \<and> adminLevel s \<in> set adminLevel_options \<and>
     mapStyle s \<in> set mapStyle_options \<and> map_of mapStyles (mapStyle s) \<noteq> None"
proof -
  obtain s v where r: "run (initial_app, initial_view) demo_events = Inr (s, v)" "reachable (s, v)"
    using demo_state by blast
  show ?thesis using r reachable_enums [OF r(2)] by blast
qed

theorem set_admin_level_redraws_witness:
  "\<exists>s v s' v'. run (initial_app, initial_view) demo_events = Inr (s, v) \<and> reachable (s, v) \<and>
     showBoundaries s \<and> adminLevel s \<noteq> ''admin1'' \<and>
     map_of (adminData v) ''admin1'' = Some (JCollection sample_admin1) \<and>
     step (s, v) (UI (SetAdminLevel ''admin1'')) = Inr (s', v') \<and>
     boundariesLayer v' = Some [draw_boundaries ''admin1'' sample_admin1] \<and>
     boundaries (stats s') = length sample_admin1"
proof -
  obtain s v where r: "run (initial_app, initial_view) demo_events = Inr (s, v)" "reachable (s, v)"
      "showBoundaries s" "adminLevel s = ''admin0''"
      "map_of (adminData v) ''admin1'' = Some (JCollection sample_admin1)"
      "ref_or (boundariesData v) (placesData v) = Some (JCollection sample_polygons)"
    using demo_state by blast
  have ne: "adminLevel s \<noteq> ''admin1''" using r(4) by simp
  obtain s' v' where st: "step (s, v) (UI (SetAdminLevel ''admin1'')) = Inr (s', v')"
    using commit_Inr [of v "apply_ui (SetAdminLevel ''admin1'') s" s] r(6) by auto
  show ?thesis
    using r(1-3,5) ne st set_admin_level_redraws [OF r(2) r(3) ne r(5) st] by blast
qed

theorem failed_load_shows_error_witness:
  "\<exists>rs s' v'. reachable (initial_app, initial_view) \<and> loading initial_app \<and>
     promise_all [ok_fetch (JCollection sample_points), ok_fetch (JCollection sample_polygons),
       ok_fetch (JCollection sample_admin0), ok_fetch (JCollection sample_admin1), not_found] =
       Inr rs \<and> \<not> list_all ok rs \<and>
     step (initial_app, initial_view) (LoadSettled (ok_fetch (JCollection sample_points),
       ok_fetch (JCollection sample_polygons), ok_fetch (JCollection sample_admin0),
       ok_fetch (JCollection sample_admin1), not_found)) = Inr (s', v') \<and>
     error s' = Some ''Failed to load data files'' \<and>
     total_text (render_stats (stats s') (loading s') (error s')) = ErrorText \<and>
     placesLayer v' = Some [] \<and> adminData v' = []"
proof -
  have "\<exists>rs. promise_all [ok_fetch (JCollection sample_points),
      ok_fetch (JCollection sample_polygons), ok_fetch (JCollection sample_admin0),
      ok_fetch (JCollection sample_admin1), not_found] = Inr rs \<and> \<not> list_all ok rs"
    by (simp add: ok_fetch_def not_found_def)
  then obtain rs where p: "promise_all [ok_fetch (JCollection sample_points),
      ok_fetch (JCollection sample_polygons), ok_fetch (JCollection sample_admin0),
      ok_fetch (JCollection sample_admin1), not_found] = Inr rs" "\<not> list_all ok rs"
    by blast
  obtain s' v' where st: "step (initial_app, initial_view) (LoadSettled (ok_fetch (JCollection sample_points),
       ok_fetch (JCollection sample_polygons), ok_fetch (JCollection sample_admin0),
       ok_fetch (JCollection sample_admin1), not_found)) = Inr (s', v')"
    by (cases "loadData ''admin1'' (ok_fetch (JCollection sample_points),
       ok_fetch (JCollection sample_polygons), ok_fetch (JCollection sample_admin0),
       ok_fetch (JCollection sample_admin1), not_found) initial_app initial_view") simp
  have l: "loading initial_app" by (simp add: initial_app_def)
  show ?thesis
    using reachable_start l p st failed_load_shows_error [OF reachable_start l p st] by blast
qed

theorem reset_keeps_stale_boundaries_witness:
  "\<exists>s v s' v'. run (initial_app, initial_view) demo_events = Inr (s, v) \<and> reachable (s, v) \<and>
     showBoundaries s \<and>
     bind_r (step (s, v) (UI ResetView)) (\<lambda>sv. step sv (UI (SetShowBoundaries True))) =
       Inr (s', v') \<and>
     adminLevel s' = ''admin1'' \<and> BoundariesGroup \<in> map_layers v' \<and>
     boundariesLayer v' = Some [draw_boundaries ''admin0'' sample_admin0]"
proof -
  obtain s v where r: "run (initial_app, initial_view) demo_events = Inr (s, v)" "reachable (s, v)"
      "showBoundaries s" "boundariesLayer v = Some [draw_boundaries ''admin0'' sample_admin0]"
      "ref_or (boundariesData v) (placesData v) = Some (JCollection sample_polygons)"
    using demo_state by blast
  obtain s1 v1 where st1: "step (s, v) (UI ResetView) = Inr (s1, v1)"
    using commit_Inr [of v "reset_view s" s] r(5) by auto
  have "placeFilter s1 = ''none''"
    using commit_props [of s "reset_view s" v s1 v1] st1 by simp
  then obtain s' v' where st2: "step (s1, v1) (UI (SetShowBoundaries True)) = Inr (s', v')"
    using commit_Inr [of v1 "apply_ui (SetShowBoundaries True) s1" s1] by auto
  have b: "bind_r (step (s, v) (UI ResetView)) (\<lambda>sv. step sv (UI (SetShowBoundaries True))) =
             Inr (s', v')"
    using st1 st2 by simp
  show ?thesis
    using r b reset_keeps_stale_boundaries [OF r(2,3) b] by auto
qed

theorem show_after_load_draws_nothing_witness:
  "\<exists>s' v'. reachable (initial_app, initial_view) \<and> loading initial_app \<and>
     \<not> showBoundaries initial_app \<and>
     bind_r (step (initial_app, initial_view) (LoadSettled sample_fetches))
       (\<lambda>sv. step sv (UI (SetShowBoundaries True))) = Inr (s', v') \<and>
     BoundariesGroup \<in> map_layers v' \<and> boundariesLayer v' = Some []"
proof -
  have h: "loading initial_app" "\<not> showBoundaries initial_app"
    by (simp_all add: initial_app_def)
  obtain s1 v1 where l1: "loadData ''admin1'' sample_fetches initial_app initial_view = (s1, v1)"
    by (cases "loadData ''admin1'' sample_fetches initial_app initial_view")
  have "placeFilter s1 = ''none''"
    using loadData_frame [OF l1] by (simp add: initial_app_def)
  then obtain s' v' where st2: "step (s1, v1) (UI (SetShowBoundaries True)) = Inr (s', v')"
    using commit_Inr [of v1 "apply_ui (SetShowBoundaries True) s1" s1] by auto
  have b: "bind_r (step (initial_app, initial_view) (LoadSettled sample_fetches))
       (\<lambda>sv. step sv (UI (SetShowBoundaries True))) = Inr (s', v')"
    using l1 st2 by simp
  show ?thesis
    using h b reachable_start show_after_load_draws_nothing [OF reachable_start h b] by blast
qed

theorem load_counts_admin1_witness:
  "parsed (ok_fetch (JCollection sample_points)) = Some (JCollection sample_points) \<and>
   parsed (ok_fetch (JCollection sample_admin1)) = Some (JCollection sample_admin1) \<and>
   step (initial_app\<lparr>adminLevel := ''admin2''\<rparr>, initial_view) (LoadSettled sample_fetches) =
     Inr (fst (loadData ''admin1'' sample_fetches (initial_app\<lparr>adminLevel := ''admin2''\<rparr>) initial_view),
          snd (loadData ''admin1'' sample_fetches (initial_app\<lparr>adminLevel := ''admin2''\<rparr>) initial_view)) \<and>
   adminLevel (fst (loadData ''admin1'' sample_fetches (initial_app\<lparr>adminLevel := ''admin2''\<rparr>)
     initial_view)) = ''admin2'' \<and>
   boundaries (stats (fst (loadData ''admin1'' sample_fetches
     (initial_app\<lparr>adminLevel := ''admin2''\<rparr>) initial_view))) = length sample_admin1"
proof -
  have h: "parsed (ok_fetch (JCollection sample_points)) = Some (JCollection sample_points)"
    "parsed (ok_fetch (JCollection sample_polygons)) = Some (JCollection sample_polygons)"
    "parsed (ok_fetch (JCollection sample_admin0)) = Some (JCollection sample_admin0)"
    "parsed (ok_fetch (JCollection sample_admin1)) = Some (JCollection sample_admin1)"
    "parsed (ok_fetch (JCollection sample_admin2)) = Some (JCollection sample_admin2)"
    by (simp_all add: ok_fetch_def)
  have st: "step (initial_app\<lparr>adminLevel := ''admin2''\<rparr>, initial_view) (LoadSettled
      (ok_fetch (JCollection sample_points), ok_fetch (JCollection sample_polygons),
       ok_fetch (JCollection sample_admin0), ok_fetch (JCollection sample_admin1),
       ok_fetch (JCollection sample_admin2))) =
     Inr (fst (loadData ''admin1'' sample_fetches (initial_app\<lparr>adminLevel := ''admin2''\<rparr>) initial_view),
          snd (loadData ''admin1'' sample_fetches (initial_app\<lparr>adminLevel := ''admin2''\<rparr>) initial_view))"
    by (simp add: sample_fetches_def)
  show ?thesis
    using h st load_counts_admin1 [OF h st] by (simp add: sample_fetches_def)
qed

theorem load_draws_nothing_witness:
  "\<exists>s v s' v'. run (initial_app, initial_view) [UI (SetPlaceFilter ''city'')] = Inr (s, v) \<and>
     reachable (s, v) \<and> loading s \<and> step (s, v) (LoadSettled sample_fetches) = Inr (s', v') \<and>
     placeFilter s' = ''city'' \<and> placesLayer v' = Some [] \<and> visible (stats s') = 0"
proof -
  have a: "after [UI (SetPlaceFilter ''city'')] (\<lambda>s v. loading s \<and> placeFilter s = ''city'')"
    by code_simp
  obtain s v where r: "run (initial_app, initial_view) [UI (SetPlaceFilter ''city'')] = Inr (s, v)"
      "reachable (s, v)" "loading s" "placeFilter s = ''city''"
    using after_reachable [OF a] by blast
  obtain s' v' where st: "step (s, v) (LoadSettled sample_fetches) = Inr (s', v')"
    by (cases "loadData ''admin1'' sample_fetches s v") simp
  show ?thesis
    using r st load_draws_nothing [OF r(2,3) st] by auto
qed

theorem bad_points_partial_load_witness:
  "parsed (ok_fetch JOther) = Some JOther \<and>
   loadData ''admin1'' (ok_fetch JOther, ok_fetch (JCollection sample_polygons),
     ok_fetch (JCollection sample_admin0), ok_fetch (JCollection sample_admin1),
     ok_fetch (JCollection sample_admin2)) initial_app initial_view =
   (fail_load ''Cannot read properties of undefined (reading 'length')'' initial_app,
    initial_view\<lparr>placesData := Some JOther, boundariesData := Some (JCollection sample_polygons),
      adminData := [(''admin0'', JCollection sample_admin0), (''admin1'', JCollection sample_admin1),
                    (''admin2'', JCollection sample_admin2),
                    (''populated_places'', JCollection sample_polygons)]\<rparr>)"
proof -
  have h: "parsed (ok_fetch JOther) = Some JOther"
    "parsed (ok_fetch (JCollection sample_polygons)) = Some (JCollection sample_polygons)"
    "parsed (ok_fetch (JCollection sample_admin0)) = Some (JCollection sample_admin0)"
    "parsed (ok_fetch (JCollection sample_admin1)) = Some (JCollection sample_admin1)"
    "parsed (ok_fetch (JCollection sample_admin2)) = Some (JCollection sample_admin2)"
    by (simp_all add: ok_fetch_def)
  show ?thesis
    using h bad_points_partial_load [OF h] by blast
qed


end
